theory Spec2Isabelle
  imports Main "HOL-Library.AList" "HOL-Library.Multiset" "HOL-Library.Log_Nat"
begin

section \<open>Python values shared by the models\<close>

text \<open>
  The exceptions the modelled code can raise. Every function that can raise returns
  \<open>pyerror + 'a\<close>, with \<open>Inl\<close> for the exception.
\<close>

datatype pyerror =
    ZeroDivisionError
  | KeyError string
  | AttributeError string
  | TypeError string
  | OverflowError
  | ValueError

text \<open>Sequencing of computations that can raise: the first exception wins.\<close>

definition bind_result :: "pyerror + 'a \<Rightarrow> ('a \<Rightarrow> pyerror + 'b) \<Rightarrow> pyerror + 'b" where
  "bind_result r f = (case r of Inl e \<Rightarrow> Inl e | Inr x \<Rightarrow> f x)"

text \<open>
  A list comprehension \<^verbatim>\<open>[f(x) for x in xs]\<close> whose body can raise: the elements are
  computed from left to right and the first exception ends the comprehension.
\<close>

fun comprehension :: "('a \<Rightarrow> pyerror + 'b) \<Rightarrow> 'a list \<Rightarrow> pyerror + 'b list" where
  "comprehension f [] = Inr []"
| "comprehension f (x # xs) =
     (case f x of
        Inl e \<Rightarrow> Inl e
      | Inr y \<Rightarrow> (case comprehension f xs of Inl e \<Rightarrow> Inl e | Inr ys \<Rightarrow> Inr (y # ys)))"

text \<open>
  A Python \<^verbatim>\<open>dict\<close> keeps its keys in insertion order; storing under a key that is
  already there replaces the value and keeps the position. That is \<open>AList.update\<close> on an
  association list.
\<close>

type_synonym ('k, 'v) dict = "('k \<times> 'v) list"

definition dict_lookup :: "(string, 'v) dict \<Rightarrow> string \<Rightarrow> pyerror + 'v" where
  "dict_lookup d k = (case map_of d k of None \<Rightarrow> Inl (KeyError k) | Some v \<Rightarrow> Inr v)"

text \<open>\<^verbatim>\<open>dict(zip(ks, vs))\<close>: the pairs are inserted in order, a later pair overrides.\<close>

definition dict_zip :: "'k list \<Rightarrow> 'v list \<Rightarrow> ('k, 'v) dict" where
  "dict_zip ks vs = foldl (\<lambda>d (k, v). AList.update k v d) [] (zip ks vs)"

section \<open>Class weights of the SFD binary-classification fine-tuning script\<close>

text \<open>
  \<^verbatim>\<open>scripts/finetuning/setbert_finetune_sfd_binary_classification.py\<close>, function
  \<^verbatim>\<open>data_generators\<close>, lines 74 to 87. The metadata table is given by its two columns
  \<^verbatim>\<open>swab_label\<close> and \<^verbatim>\<open>oo_present\<close>; the samples are what
  \<^verbatim>\<open>sample.load_multiplexed_fasta\<close> yields, each with its name. The column
  \<^verbatim>\<open>oo_present\<close> holds integers (booleans count as 0 and 1, as in Python); a target
  is positive when it is truthy, that is, not 0. The weights are rationals: the division
  is exact, as the claim about them is stated in exact arithmetic.
\<close>

record 's sample =
  name :: string
  payload :: 's

definition truthy :: "int \<Rightarrow> bool" where
  "truthy v = (v \<noteq> 0)"

definition py_div :: "rat \<Rightarrow> int \<Rightarrow> pyerror + rat" where
  "py_div a b = (if b = 0 then Inl ZeroDivisionError else Inr (a / of_int b))"

text \<open>
  Lines 76 to 83: the samples whose name has a target; the second filter through
  \<^verbatim>\<open>to_keep\<close> keeps the same samples.
\<close>

definition retained_samples :: "(string, int) dict \<Rightarrow> 's sample list \<Rightarrow> 's sample list" where
  "retained_samples targets loaded =
     (let samples = filter (\<lambda>s. name s \<in> fst ` set targets) loaded;
          to_keep = set (map name samples) \<inter> fst ` set targets
      in filter (\<lambda>s. name s \<in> to_keep) samples)"

text \<open>Line 84: \<^verbatim>\<open>{s.name: targets[s.name] for s in samples}\<close>.\<close>

fun retarget :: "(string, int) dict \<Rightarrow> (string, int) dict \<Rightarrow> 's sample list
    \<Rightarrow> pyerror + (string, int) dict" where
  "retarget targets acc [] = Inr acc"
| "retarget targets acc (s # ss) =
     (case dict_lookup targets (name s) of
        Inl e \<Rightarrow> Inl e
      | Inr v \<Rightarrow> retarget targets (AList.update (name s) v acc) ss)"

text \<open>Line 87: the weight of one sample; only the branch that is taken is evaluated.\<close>

definition class_weight :: "(string, int) dict \<Rightarrow> int \<Rightarrow> int \<Rightarrow> 's sample \<Rightarrow> pyerror + rat" where
  "class_weight targets num_positive num_negative s =
     (case dict_lookup targets (name s) of
        Inl e \<Rightarrow> Inl e
      | Inr v \<Rightarrow> if truthy v then py_div (1 / 2) num_positive else py_div (1 / 2) num_negative)"

record 's weighting =
  w_samples :: "'s sample list"
  w_targets :: "(string, int) dict"
  w_num_positive :: int
  w_num_negative :: int
  w_class_weights :: "rat list"

text \<open>Lines 75 to 87 of \<^verbatim>\<open>data_generators\<close>, up to the array of class weights.\<close>

definition data_generators :: "string list \<Rightarrow> int list \<Rightarrow> 's sample list
    \<Rightarrow> pyerror + 's weighting" where
  "data_generators swab_label oo_present loaded =
     (let targets0 = dict_zip swab_label oo_present;
          samples = retained_samples targets0 loaded
      in case retarget targets0 [] samples of
           Inl e \<Rightarrow> Inl e
         | Inr targets \<Rightarrow>
             (let num_positive = sum_list (map snd targets);
                  num_negative = int (length targets) - num_positive
              in case comprehension (class_weight targets num_positive num_negative) samples of
                   Inl e \<Rightarrow> Inl e
                 | Inr class_weights \<Rightarrow> Inr \<lparr>w_samples = samples, w_targets = targets,
                     w_num_positive = num_positive, w_num_negative = num_negative,
                     w_class_weights = class_weights\<rparr>))"

text \<open>The samples the claim speaks of, and the weight mass of a class.\<close>

definition positive_in :: "(string, int) dict \<Rightarrow> 's sample \<Rightarrow> bool" where
  "positive_in d s = (case map_of d (name s) of Some v \<Rightarrow> truthy v | None \<Rightarrow> False)"

definition class_mass :: "bool \<Rightarrow> 's weighting \<Rightarrow> rat" where
  "class_mass positive w =
     sum_list (map snd (filter (\<lambda>(s, x). positive_in (w_targets w) s = positive)
       (zip (w_samples w) (w_class_weights w))))"

section \<open>The GAST generator and discriminator\<close>

text \<open>
  \<^verbatim>\<open>common/models/gast.py\<close>. Both classes store their constructor arguments and build a
  Keras functional model from them. The layer classes come from Keras and from the
  \<^verbatim>\<open>settransformer\<close> package (\<^verbatim>\<open>st\<close>), \<^verbatim>\<open>SampleSet\<close> from the repository's layers
  module; what a layer computes, and which arguments or input shapes it rejects, belongs
  to those packages and is not modelled. A layer is the record of the arguments it was
  constructed with, a symbolic tensor is the expression that produced it, and calling a
  layer on tensors always yields a tensor. A built model holds its input tensors, its
  output tensor and the layers that were constructed for it, in the order of construction.

  The model is typed: a dimension is an \<open>int\<close>, a flag a \<open>bool\<close>, an argument that may be
  \<^verbatim>\<open>None\<close> an \<open>option\<close>.
\<close>

subsection \<open>Layers, tensors and models\<close>

datatype dtype = float32 | int32

text \<open>
  The arguments follow the order of the keyword arguments in the source:
  \<^item> \<open>Dense units activation\<close>;
  \<^item> \<open>SampleSet max_set_size embed_dim\<close>;
  \<^item> \<open>ConditionedSetAttentionBlock embed_dim num_heads num_anchors ff_dim ff_activation
     use_keras_mha use_spectral_norm prelayernorm is_final\<close>;
  \<^item> \<open>InducedSetAttentionBlock embed_dim num_heads num_induce ff_dim ff_activation
     use_keras_mha use_spectral_norm prelayernorm is_final\<close>;
  \<^item> \<open>InducedSetEncoder num_seeds embed_dim num_heads ff_dim ff_activation prelayernorm
     is_final use_keras_mha use_spectral_norm\<close>;
  \<^item> \<open>spectral_dense units use_spectral_norm\<close>.
\<close>

datatype layer =
    Dense int "string option"
  | Add
  | Concatenate
  | SampleSet int int
  | ConditionedSetAttentionBlock int int int "int option" string bool bool bool bool
  | InducedSetAttentionBlock int int int "int option" string bool bool bool bool
  | InducedSetEncoder int int int "int option" string bool bool bool bool
  | spectral_dense int bool

text \<open>
  \<open>Input shape dtype name\<close> is \<^verbatim>\<open>keras.layers.Input(shape, dtype=dtype, name=name)\<close>, a
  dimension \<^verbatim>\<open>None\<close> being \<open>None\<close>; \<open>Apply l xs\<close> is the call \<^verbatim>\<open>l(xs)\<close>.
\<close>

datatype tensor =
    Input "int option list" dtype "string option"
  | Apply layer "tensor list"

record keras_model =
  inputs :: "tensor list"
  outputs :: tensor
  layers :: "layer list"

text \<open>The state of a model under construction: the current tensor and the layers so far.\<close>

type_synonym building = "tensor \<times> layer list"

text \<open>What the claims read off a layer.\<close>

fun spectral_norm_of :: "layer \<Rightarrow> bool option" where
  "spectral_norm_of (ConditionedSetAttentionBlock e h a f fa mha usn pln fin) = Some usn"
| "spectral_norm_of (InducedSetAttentionBlock e h a f fa mha usn pln fin) = Some usn"
| "spectral_norm_of (InducedSetEncoder s e h f fa pln fin mha usn) = Some usn"
| "spectral_norm_of (spectral_dense u usn) = Some usn"
| "spectral_norm_of _ = None"

fun is_csab :: "layer \<Rightarrow> bool" where
  "is_csab (ConditionedSetAttentionBlock e h a f fa mha usn pln fin) = True"
| "is_csab _ = False"

fun is_isab :: "layer \<Rightarrow> bool" where
  "is_isab (InducedSetAttentionBlock e h a f fa mha usn pln fin) = True"
| "is_isab _ = False"

fun anchors_of :: "layer \<Rightarrow> int option" where
  "anchors_of (ConditionedSetAttentionBlock e h a f fa mha usn pln fin) = Some a"
| "anchors_of (InducedSetAttentionBlock e h a f fa mha usn pln fin) = Some a"
| "anchors_of _ = None"

subsection \<open>Keyword arguments and configuration dictionaries\<close>

text \<open>
  The values a configuration dictionary holds. A constructor call is modelled by the
  dictionary of its keyword arguments, so that \<^verbatim>\<open>cls(**config)\<close> is the constructor
  applied to \<open>config\<close>; a positional argument is the keyword argument of its parameter.
\<close>

datatype pyval = VNone | VBool bool | VInt int | VStr string

text \<open>
  Binding a parameter. A required parameter without argument raises \<^verbatim>\<open>TypeError\<close>, as
  Python does; a parameter with a default takes the default. Python would bind a value
  of any type; the typed model has no attribute of another type, and rejects such a call
  with \<^verbatim>\<open>TypeError\<close> as well.
\<close>

definition required_int :: "(string, pyval) dict \<Rightarrow> string \<Rightarrow> pyerror + int" where
  "required_int kw k =
     (case map_of kw k of Some (VInt n) \<Rightarrow> Inr n | _ \<Rightarrow> Inl (TypeError k))"

definition default_int :: "(string, pyval) dict \<Rightarrow> string \<Rightarrow> int \<Rightarrow> pyerror + int" where
  "default_int kw k d =
     (case map_of kw k of None \<Rightarrow> Inr d | Some (VInt n) \<Rightarrow> Inr n | _ \<Rightarrow> Inl (TypeError k))"

definition default_bool :: "(string, pyval) dict \<Rightarrow> string \<Rightarrow> bool \<Rightarrow> pyerror + bool" where
  "default_bool kw k d =
     (case map_of kw k of None \<Rightarrow> Inr d | Some (VBool b) \<Rightarrow> Inr b | _ \<Rightarrow> Inl (TypeError k))"

definition default_str :: "(string, pyval) dict \<Rightarrow> string \<Rightarrow> string \<Rightarrow> pyerror + string" where
  "default_str kw k d =
     (case map_of kw k of None \<Rightarrow> Inr d | Some (VStr s) \<Rightarrow> Inr s | _ \<Rightarrow> Inl (TypeError k))"

text \<open>A parameter whose default is \<^verbatim>\<open>None\<close> and whose value is an integer or \<^verbatim>\<open>None\<close>.\<close>

definition default_none :: "(string, pyval) dict \<Rightarrow> string \<Rightarrow> pyerror + int option" where
  "default_none kw k =
     (case map_of kw k of None \<Rightarrow> Inr None | Some VNone \<Rightarrow> Inr None
      | Some (VInt n) \<Rightarrow> Inr (Some n) | _ \<Rightarrow> Inl (TypeError k))"

definition int_or_none :: "int option \<Rightarrow> pyval" where
  "int_or_none v = (case v of None \<Rightarrow> VNone | Some n \<Rightarrow> VInt n)"

text \<open>\<^verbatim>\<open>d.update({...})\<close>: the pairs are stored in the order they are written.\<close>

definition dict_update :: "('k, 'v) dict \<Rightarrow> ('k \<times> 'v) list \<Rightarrow> ('k, 'v) dict" where
  "dict_update d kvs = foldl (\<lambda>d (k, v). AList.update k v d) d kvs"

text \<open>
  \<^verbatim>\<open>CustomModel.get_config\<close> (\<^verbatim>\<open>deepdna/nn/models/custom_model.py\<close>, line 158) returns the
  empty dictionary.
\<close>

definition CustomModel_get_config :: "(string, pyval) dict" where
  "CustomModel_get_config = []"

subsection \<open>The attributes of the two classes\<close>

record GastDiscriminator_attrs =
  latent_dim :: int
  embed_dim :: int
  stack :: int
  num_heads :: int
  num_anchors :: int
  use_keras_mha :: bool
  use_spectral_norm :: bool
  activation :: string
  ff_dim :: "int option"
  pre_layernorm :: bool
  num_classes :: int

record GastDiscriminator = GastDiscriminator_attrs +
  model :: keras_model

record GastGenerator_attrs =
  max_set_size :: int
  noise_dim :: int
  embed_dim :: int
  latent_dim :: int
  stack :: int
  num_heads :: int
  num_anchors :: int
  use_keras_mha :: bool
  use_spectral_norm :: bool
  activation :: string
  cond_dim :: int
  ff_dim :: "int option"
  mlp_dim :: "int option"
  pre_layernorm :: bool
  include_class :: bool
  num_classes :: "int option"
  class_dim :: int

record GastGenerator = GastGenerator_attrs +
  model :: keras_model

subsection \<open>GastGenerator\<close>

text \<open>The layer constructed at lines 72 to 81, in round \<open>i\<close> of the loop.\<close>

definition generator_csab :: "'a GastGenerator_attrs_scheme \<Rightarrow> nat \<Rightarrow> layer" where
  "generator_csab self i =
     ConditionedSetAttentionBlock
       (GastGenerator_attrs.latent_dim self)
       (GastGenerator_attrs.num_heads self)
       (GastGenerator_attrs.num_anchors self)
       (GastGenerator_attrs.ff_dim self)
       (GastGenerator_attrs.activation self)
       (GastGenerator_attrs.use_keras_mha self)
       (GastGenerator_attrs.use_spectral_norm self)
       (GastGenerator_attrs.pre_layernorm self)
       (int i = GastGenerator_attrs.stack self - 1)"

text \<open>
  One round of the loop of lines 71 to 82: the block is called on the current set and
  the condition, and its result is added to the current set.
\<close>

definition generator_block :: "'a GastGenerator_attrs_scheme \<Rightarrow> tensor \<Rightarrow> building \<Rightarrow> nat
    \<Rightarrow> building" where
  "generator_block self condition b i =
     (case b of (y, ls) \<Rightarrow>
        let csab = generator_csab self i;
            y1 = Apply csab [y, condition]
        in (Apply Add [y, y1], ls @ [csab, Add]))"

text \<open>
  \<^verbatim>\<open>GastGenerator.build_model\<close>, lines 54 to 87. With \<^verbatim>\<open>include_class\<close> set, line 64 reads
  \<^verbatim>\<open>self.num_samples\<close>, an attribute that neither \<^verbatim>\<open>__init__\<close> nor a base class
  assigns: the read raises \<^verbatim>\<open>AttributeError\<close> while the arguments of \<^verbatim>\<open>Embedding\<close> are
  evaluated, so lines 65, 66 and 86 are never reached. \<^verbatim>\<open>range(self.stack)\<close> is empty
  for a stack that is not positive.
\<close>

definition GastGenerator_build_model :: "'a GastGenerator_attrs_scheme \<Rightarrow> pyerror + keras_model" where
  "GastGenerator_build_model self =
     (let noise = Input [Some (noise_dim self)] float32 (Some ''noise'');
          cardinality = Input [Some 1] int32 (Some ''cardinality'')
      in if include_class self then Inl (AttributeError ''num_samples'')
         else
           let dense = Dense (cond_dim self) (Some (GastGenerator_attrs.activation self));
               condition = Apply dense [noise];
               sample_set = SampleSet (max_set_size self) (GastGenerator_attrs.embed_dim self);
               y = Apply sample_set [cardinality];
               b = foldl (generator_block self condition) (y, [dense, sample_set])
                     [0 ..< nat (GastGenerator_attrs.stack self)];
               final = spectral_dense (GastGenerator_attrs.latent_dim self)
                     (GastGenerator_attrs.use_spectral_norm self)
           in Inr \<lparr>inputs = [noise, cardinality],
                   outputs = Apply final [fst b],
                   layers = snd b @ [final]\<rparr>)"

text \<open>\<^verbatim>\<open>GastGenerator.__init__\<close>, lines 13 to 52, on the bound arguments.\<close>

definition GastGenerator_init :: "int \<Rightarrow> int \<Rightarrow> int \<Rightarrow> int \<Rightarrow> int \<Rightarrow> int \<Rightarrow> int \<Rightarrow> bool \<Rightarrow> bool
    \<Rightarrow> string \<Rightarrow> int option \<Rightarrow> int option \<Rightarrow> int option \<Rightarrow> bool \<Rightarrow> bool \<Rightarrow> int option
    \<Rightarrow> int option \<Rightarrow> pyerror + GastGenerator" where
  "GastGenerator_init max_set_size' noise_dim' embed_dim' latent_dim' stack' num_heads'
      num_anchors' use_keras_mha' use_spectral_norm' activation' cond_dim' ff_dim' mlp_dim'
      pre_layernorm' include_class' num_classes' class_dim' =
     (let self = \<lparr>max_set_size = max_set_size',
            noise_dim = noise_dim',
            embed_dim = embed_dim',
            latent_dim = latent_dim',
            stack = stack',
            num_heads = num_heads',
            num_anchors = num_anchors',
            use_keras_mha = use_keras_mha',
            use_spectral_norm = use_spectral_norm',
            activation = activation',
            cond_dim = (case cond_dim' of Some c \<Rightarrow> c | None \<Rightarrow> embed_dim'),
            ff_dim = ff_dim',
            mlp_dim = (case mlp_dim' of Some m \<Rightarrow> Some m | None \<Rightarrow> ff_dim'),
            pre_layernorm = pre_layernorm',
            include_class = include_class',
            num_classes = num_classes',
            class_dim = (case class_dim' of Some c \<Rightarrow> c | None \<Rightarrow> noise_dim')\<rparr>
      in case GastGenerator_build_model self of
           Inl e \<Rightarrow> Inl e
         | Inr m \<Rightarrow> Inr (GastGenerator_attrs.extend self \<lparr>model = m\<rparr>))"

text \<open>
  The constructor call \<^verbatim>\<open>GastGenerator(**kw)\<close>: the parameters of line 13 to 32 are
  bound, the first seven being required, and \<^verbatim>\<open>__init__\<close> runs. Keys that name no
  parameter go to \<^verbatim>\<open>**kwargs\<close> and on to the Keras base class, which is not modelled.
\<close>

definition GastGenerator_new :: "(string, pyval) dict \<Rightarrow> pyerror + GastGenerator" where
  "GastGenerator_new kw =
     bind_result (required_int kw ''max_set_size'') (\<lambda>max_set_size'.
     bind_result (required_int kw ''noise_dim'') (\<lambda>noise_dim'.
     bind_result (required_int kw ''embed_dim'') (\<lambda>embed_dim'.
     bind_result (required_int kw ''latent_dim'') (\<lambda>latent_dim'.
     bind_result (required_int kw ''stack'') (\<lambda>stack'.
     bind_result (required_int kw ''num_heads'') (\<lambda>num_heads'.
     bind_result (required_int kw ''num_anchors'') (\<lambda>num_anchors'.
     bind_result (default_bool kw ''use_keras_mha'' False) (\<lambda>use_keras_mha'.
     bind_result (default_bool kw ''use_spectral_norm'' True) (\<lambda>use_spectral_norm'.
     bind_result (default_str kw ''activation'' ''relu'') (\<lambda>activation'.
     bind_result (default_none kw ''cond_dim'') (\<lambda>cond_dim'.
     bind_result (default_none kw ''ff_dim'') (\<lambda>ff_dim'.
     bind_result (default_none kw ''mlp_dim'') (\<lambda>mlp_dim'.
     bind_result (default_bool kw ''pre_layernorm'' True) (\<lambda>pre_layernorm'.
     bind_result (default_bool kw ''include_class'' False) (\<lambda>include_class'.
     bind_result (default_none kw ''num_classes'') (\<lambda>num_classes'.
     bind_result (default_none kw ''class_dim'') (\<lambda>class_dim'.
       GastGenerator_init max_set_size' noise_dim' embed_dim' latent_dim' stack' num_heads'
         num_anchors' use_keras_mha' use_spectral_norm' activation' cond_dim' ff_dim' mlp_dim'
         pre_layernorm' include_class' num_classes' class_dim')))))))))))))))))"

text \<open>\<^verbatim>\<open>GastGenerator.get_config\<close>, lines 92 to 113.\<close>

definition GastGenerator_get_config :: "'a GastGenerator_attrs_scheme \<Rightarrow> (string, pyval) dict" where
  "GastGenerator_get_config self =
     (let config = CustomModel_get_config
      in dict_update config
        [(''max_set_size'', VInt (max_set_size self)),
         (''noise_dim'', VInt (noise_dim self)),
         (''embed_dim'', VInt (GastGenerator_attrs.embed_dim self)),
         (''latent_dim'', VInt (GastGenerator_attrs.latent_dim self)),
         (''stack'', VInt (GastGenerator_attrs.stack self)),
         (''num_heads'', VInt (GastGenerator_attrs.num_heads self)),
         (''num_anchors'', VInt (GastGenerator_attrs.num_anchors self)),
         (''use_keras_mha'', VBool (GastGenerator_attrs.use_keras_mha self)),
         (''use_spectral_norm'', VBool (GastGenerator_attrs.use_spectral_norm self)),
         (''activation'', VStr (GastGenerator_attrs.activation self)),
         (''cond_dim'', VInt (cond_dim self)),
         (''ff_dim'', int_or_none (GastGenerator_attrs.ff_dim self)),
         (''mlp_dim'', int_or_none (mlp_dim self)),
         (''pre_layernorm'', VBool (GastGenerator_attrs.pre_layernorm self)),
         (''include_class'', VBool (include_class self)),
         (''num_classes'', int_or_none (GastGenerator_attrs.num_classes self)),
         (''class_dim'', VInt (class_dim self))])"

text \<open>
  \<^verbatim>\<open>CustomModel.from_config\<close> (\<^verbatim>\<open>custom_model.py\<close>, lines 154 to 156), inherited by
  \<^verbatim>\<open>GastGenerator\<close>: \<^verbatim>\<open>cls(**config)\<close>.
\<close>

definition GastGenerator_from_config :: "(string, pyval) dict \<Rightarrow> pyerror + GastGenerator" where
  "GastGenerator_from_config config = GastGenerator_new config"

text \<open>
  The generator as claim C7 describes it, to compare the built model with: the projection
  of the noise input to \<^verbatim>\<open>cond_dim\<close> dimensions, and the sample set of \<^verbatim>\<open>max_set_size\<close>
  and \<^verbatim>\<open>embed_dim\<close> on the cardinality input, conditioned on that projection \<open>n\<close> times.
\<close>

definition noise_projection :: "'a GastGenerator_attrs_scheme \<Rightarrow> tensor" where
  "noise_projection self =
     Apply (Dense (cond_dim self) (Some (GastGenerator_attrs.activation self)))
       [Input [Some (noise_dim self)] float32 (Some ''noise'')]"

primrec conditioned_set :: "'a GastGenerator_attrs_scheme \<Rightarrow> nat \<Rightarrow> tensor" where
  "conditioned_set self 0 =
     Apply (SampleSet (max_set_size self) (GastGenerator_attrs.embed_dim self))
       [Input [Some 1] int32 (Some ''cardinality'')]"
| "conditioned_set self (Suc n) =
     Apply Add [conditioned_set self n,
       Apply (generator_csab self n) [conditioned_set self n, noise_projection self]]"

subsection \<open>GastDiscriminator\<close>

text \<open>
  The set encoder of lines 154 to 164 and 179 to 188: the same arguments at both places.
\<close>

definition discriminator_encoder :: "'a GastDiscriminator_attrs_scheme \<Rightarrow> layer" where
  "discriminator_encoder self =
     InducedSetEncoder 1
       (GastDiscriminator_attrs.embed_dim self)
       (GastDiscriminator_attrs.num_heads self)
       (GastDiscriminator_attrs.ff_dim self)
       (GastDiscriminator_attrs.activation self)
       (GastDiscriminator_attrs.pre_layernorm self)
       True
       (GastDiscriminator_attrs.use_keras_mha self)
       (GastDiscriminator_attrs.use_spectral_norm self)"

text \<open>The layer constructed at lines 168 to 177, in round \<open>i\<close> of the loop.\<close>

definition discriminator_isab :: "'a GastDiscriminator_attrs_scheme \<Rightarrow> nat \<Rightarrow> layer" where
  "discriminator_isab self i =
     InducedSetAttentionBlock
       (GastDiscriminator_attrs.embed_dim self)
       (GastDiscriminator_attrs.num_heads self)
       (GastDiscriminator_attrs.num_anchors self)
       (GastDiscriminator_attrs.ff_dim self)
       (GastDiscriminator_attrs.activation self)
       (GastDiscriminator_attrs.use_keras_mha self)
       (GastDiscriminator_attrs.use_spectral_norm self)
       (GastDiscriminator_attrs.pre_layernorm self)
       (int i = GastDiscriminator_attrs.stack self - 1)"

text \<open>
  One round of the loop of lines 167 to 188; the state carries the list \<^verbatim>\<open>enc\<close> of
  encodings next to the current set and the layers.
\<close>

definition discriminator_block :: "'a GastDiscriminator_attrs_scheme
    \<Rightarrow> building \<times> tensor list \<Rightarrow> nat \<Rightarrow> building \<times> tensor list" where
  "discriminator_block self b i =
     (case b of ((y, ls), enc) \<Rightarrow>
        let isab = discriminator_isab self i;
            y1 = Apply isab [y];
            y' = Apply Add [y, y1];
            ise = discriminator_encoder self
        in ((y', ls @ [isab, Add, ise]), enc @ [Apply ise [y']]))"

text \<open>\<^verbatim>\<open>GastDiscriminator.build_model\<close>, lines 148 to 194.\<close>

definition GastDiscriminator_build_model :: "'a GastDiscriminator_attrs_scheme \<Rightarrow> keras_model" where
  "GastDiscriminator_build_model self =
     (let x = Input [None, Some (GastDiscriminator_attrs.latent_dim self)] float32 None;
          dense = Dense (GastDiscriminator_attrs.embed_dim self) None;
          y = Apply dense [x];
          ise = discriminator_encoder self;
          enc = [Apply ise [y]];
          b = foldl (discriminator_block self) ((y, [dense, ise]), enc)
                [0 ..< nat (GastDiscriminator_attrs.stack self)];
          concat = Concatenate;
          y2 = Apply concat (snd b);
          final = Dense (GastDiscriminator_attrs.num_classes self + 1) (Some ''softmax'')
      in \<lparr>inputs = [x], outputs = Apply final [y2],
          layers = snd (fst b) @ [concat, final]\<rparr>)"

text \<open>\<^verbatim>\<open>GastDiscriminator.__init__\<close>, lines 118 to 146.\<close>

definition GastDiscriminator_init :: "int \<Rightarrow> int \<Rightarrow> int \<Rightarrow> int \<Rightarrow> int \<Rightarrow> bool \<Rightarrow> bool \<Rightarrow> string
    \<Rightarrow> int option \<Rightarrow> bool \<Rightarrow> int \<Rightarrow> GastDiscriminator" where
  "GastDiscriminator_init latent_dim' embed_dim' stack' num_heads' num_anchors' use_keras_mha'
      use_spectral_norm' activation' ff_dim' pre_layernorm' num_classes' =
     (let self = \<lparr>GastDiscriminator_attrs.latent_dim = latent_dim',
            GastDiscriminator_attrs.embed_dim = embed_dim',
            GastDiscriminator_attrs.stack = stack',
            GastDiscriminator_attrs.num_heads = num_heads',
            GastDiscriminator_attrs.num_anchors = num_anchors',
            GastDiscriminator_attrs.use_keras_mha = use_keras_mha',
            GastDiscriminator_attrs.use_spectral_norm = use_spectral_norm',
            GastDiscriminator_attrs.activation = activation',
            GastDiscriminator_attrs.ff_dim = ff_dim',
            GastDiscriminator_attrs.pre_layernorm = pre_layernorm',
            GastDiscriminator_attrs.num_classes = num_classes'\<rparr>
      in GastDiscriminator_attrs.extend self
           \<lparr>GastDiscriminator.model = GastDiscriminator_build_model self\<rparr>)"

text \<open>
  The constructor call \<^verbatim>\<open>GastDiscriminator(**kw)\<close>: the parameters of lines 120 to 130
  are bound, the first five being required.
\<close>

definition GastDiscriminator_new :: "(string, pyval) dict \<Rightarrow> pyerror + GastDiscriminator" where
  "GastDiscriminator_new kw =
     bind_result (required_int kw ''latent_dim'') (\<lambda>latent_dim'.
     bind_result (required_int kw ''embed_dim'') (\<lambda>embed_dim'.
     bind_result (required_int kw ''stack'') (\<lambda>stack'.
     bind_result (required_int kw ''num_heads'') (\<lambda>num_heads'.
     bind_result (required_int kw ''num_anchors'') (\<lambda>num_anchors'.
     bind_result (default_bool kw ''use_keras_mha'' False) (\<lambda>use_keras_mha'.
     bind_result (default_bool kw ''use_spectral_norm'' True) (\<lambda>use_spectral_norm'.
     bind_result (default_str kw ''activation'' ''relu'') (\<lambda>activation'.
     bind_result (default_none kw ''ff_dim'') (\<lambda>ff_dim'.
     bind_result (default_bool kw ''pre_layernorm'' True) (\<lambda>pre_layernorm'.
     bind_result (default_int kw ''num_classes'' 1) (\<lambda>num_classes'.
       Inr (GastDiscriminator_init latent_dim' embed_dim' stack' num_heads' num_anchors'
         use_keras_mha' use_spectral_norm' activation' ff_dim' pre_layernorm'
         num_classes'))))))))))))"

subsection \<open>Two constructor calls to evaluate the models at\<close>

text \<open>
  \<^verbatim>\<open>GastGenerator(max_set_size=8, noise_dim=16, embed_dim=32, latent_dim=32, stack=2,
  num_heads=4, num_anchors=5)\<close> and \<^verbatim>\<open>GastDiscriminator(latent_dim=32, embed_dim=32,
  stack=2, num_heads=4, num_anchors=5)\<close>.
\<close>

definition example_generator_call :: "(string, pyval) dict" where
  "example_generator_call =
     [(''max_set_size'', VInt 8), (''noise_dim'', VInt 16), (''embed_dim'', VInt 32),
      (''latent_dim'', VInt 32), (''stack'', VInt 2), (''num_heads'', VInt 4),
      (''num_anchors'', VInt 5)]"

definition example_discriminator_call :: "(string, pyval) dict" where
  "example_discriminator_call =
     [(''latent_dim'', VInt 32), (''embed_dim'', VInt 32), (''stack'', VInt 2),
      (''num_heads'', VInt 4), (''num_anchors'', VInt 5)]"

section \<open>Python floats\<close>

text \<open>
  The test fraction of the dataset-preparation script is a Python \<^verbatim>\<open>float\<close>, an IEEE 754
  binary64 number. \<open>Finite m e\<close> is the number \<open>m * 2 ^ e\<close>; every finite binary64 number
  is one with \<open>\<bar>m\<bar> < 2 ^ 53\<close> and \<open>- 1074 \<le> e \<le> 971\<close>. The sign of a
  zero is not kept: the operations modelled here (comparison with \<^verbatim>\<open>0.0\<close>, \<^verbatim>\<open>int\<close>) do
  not see it.
\<close>

datatype pyfloat = Finite int int | PosInf | NegInf | NaN

definition is_binary64 :: "pyfloat \<Rightarrow> bool" where
  "is_binary64 x =
     (case x of
        Finite m e \<Rightarrow> \<bar>m\<bar> < 2 ^ 53 \<and> - 1074 \<le> e \<and> e \<le> 971
      | _ \<Rightarrow> True)"

text \<open>The value of a finite float, as a rational number.\<close>

definition pow2 :: "int \<Rightarrow> rat" where
  "pow2 e = (if 0 \<le> e then 2 ^ nat e else 1 / 2 ^ nat (- e))"

definition float_value :: "pyfloat \<Rightarrow> rat" where
  "float_value x = (case x of Finite m e \<Rightarrow> of_int m * pow2 e | _ \<Rightarrow> 0)"

text \<open>
  \<open>round_half_even a s\<close> is \<open>a / 2 ^ s\<close> for \<open>a \<ge> 0\<close>, rounded to the nearest integer, a
  tie going to the even one.
\<close>

definition round_half_even :: "int \<Rightarrow> nat \<Rightarrow> int" where
  "round_half_even a s =
     (let q = a div 2 ^ s; r = a mod 2 ^ s
      in if 2 * r < 2 ^ s then q
         else if 2 ^ s < 2 * r then q + 1
         else if even q then q else q + 1)"

text \<open>
  The binary64 number nearest to \<open>m * 2 ^ e\<close> (round to nearest, ties to even): the
  magnitude keeps 53 bits, fewer where the exponent would fall below \<open>- 1074\<close>, and a
  result of \<open>2 ^ 1024\<close> or more in magnitude is an infinity.
\<close>

definition round_binary64 :: "int \<Rightarrow> int \<Rightarrow> pyfloat" where
  "round_binary64 m e =
     (let a = \<bar>m\<bar>;
          s = max (bitlen a - 53) (- 1074 - e);
          a' = (if s \<le> 0 then a else round_half_even a (nat s));
          e' = (if s \<le> 0 then e else e + s)
      in if a' = 0 then Finite 0 0
         else if 1024 < bitlen a' + e' then (if m < 0 then NegInf else PosInf)
         else Finite (if m < 0 then - a' else a') e')"

text \<open>\<^verbatim>\<open>float(n)\<close> for an integer; Python raises \<^verbatim>\<open>OverflowError\<close> beyond the range.\<close>

definition float_of_int :: "int \<Rightarrow> pyerror + pyfloat" where
  "float_of_int n =
     (case round_binary64 n 0 of
        Finite m e \<Rightarrow> Inr (Finite m e)
      | _ \<Rightarrow> Inl OverflowError)"

text \<open>The product of two floats.\<close>

fun float_mul :: "pyfloat \<Rightarrow> pyfloat \<Rightarrow> pyfloat" where
  "float_mul (Finite m1 e1) (Finite m2 e2) = round_binary64 (m1 * m2) (e1 + e2)"
| "float_mul NaN y = NaN"
| "float_mul x NaN = NaN"
| "float_mul PosInf (Finite m e) = (if m = 0 then NaN else if m < 0 then NegInf else PosInf)"
| "float_mul NegInf (Finite m e) = (if m = 0 then NaN else if m < 0 then PosInf else NegInf)"
| "float_mul (Finite m e) PosInf = (if m = 0 then NaN else if m < 0 then NegInf else PosInf)"
| "float_mul (Finite m e) NegInf = (if m = 0 then NaN else if m < 0 then PosInf else NegInf)"
| "float_mul PosInf PosInf = PosInf"
| "float_mul PosInf NegInf = NegInf"
| "float_mul NegInf PosInf = NegInf"
| "float_mul NegInf NegInf = PosInf"

text \<open>
  \<^verbatim>\<open>int(x)\<close> truncates towards zero; it raises \<^verbatim>\<open>OverflowError\<close> for an infinity and
  \<^verbatim>\<open>ValueError\<close> for a NaN.
\<close>

definition py_int :: "pyfloat \<Rightarrow> pyerror + int" where
  "py_int x =
     (case x of
        Finite m e \<Rightarrow>
          Inr (if 0 \<le> e then m * 2 ^ nat e
               else if 0 \<le> m then m div 2 ^ nat (- e)
               else - ((- m) div 2 ^ nat (- e)))
      | PosInf \<Rightarrow> Inl OverflowError
      | NegInf \<Rightarrow> Inl OverflowError
      | NaN \<Rightarrow> Inl ValueError)"

text \<open>\<^verbatim>\<open>x > 0.0\<close> and \<^verbatim>\<open>x == 0.0\<close>.\<close>

definition float_gt_zero :: "pyfloat \<Rightarrow> bool" where
  "float_gt_zero x = (case x of Finite m e \<Rightarrow> 0 < m | PosInf \<Rightarrow> True | _ \<Rightarrow> False)"

definition float_eq_zero :: "pyfloat \<Rightarrow> bool" where
  "float_eq_zero x = (case x of Finite m e \<Rightarrow> m = 0 | _ \<Rightarrow> False)"

text \<open>\<^verbatim>\<open>n * x\<close> for an integer \<open>n\<close> and a float \<open>x\<close>: the integer is converted first.\<close>

definition int_times_float :: "int \<Rightarrow> pyfloat \<Rightarrow> pyerror + pyfloat" where
  "int_times_float n x =
     (case float_of_int n of Inl err \<Rightarrow> Inl err | Inr y \<Rightarrow> Inr (float_mul y x))"

section \<open>The dataset-preparation script\<close>

text \<open>
  \<^verbatim>\<open>scripts/prepare_local_dataset.py\<close>. The script reads FASTA and FASTQ files, shuffles
  their entries and writes test and training files. Reading, writing and the random
  number generator belong to libraries (\<^verbatim>\<open>dnadb\<close>, \<^verbatim>\<open>numpy\<close>, \<^verbatim>\<open>pathlib\<close>); the model
  takes what they return from an environment and records what the script asks of them:
  \<^item> the file system before the run is the predicate \<open>path_exists\<close>, the entries parsed
    from a file are \<open>read_fasta\<close> and \<open>read_fastq\<close> of its path;
  \<^item> every directory creation and every write is an effect, returned in the order they
    happen; whether the operating system refuses one is not modelled. Progress bars and
    \<^verbatim>\<open>print\<close> write to the console only and are left out;
  \<^item> the generator is a state of type \<open>'r\<close>; \<^verbatim>\<open>rng.shuffle\<close> of a list of length \<open>n\<close>
    draws, from the state alone, the order in which the \<open>n\<close> positions are arranged, and
    moves the state on.
\<close>

subsection \<open>Paths and strings\<close>

text \<open>
  A path is the list of its components. \<open>path_join p c\<close> is \<^verbatim>\<open>p / c\<close> for a name \<open>c\<close>
  without separator; joining the empty string leaves the path as it is.
\<close>

type_synonym path = "string list"

definition path_join :: "path \<Rightarrow> string \<Rightarrow> path" where
  "path_join p c = (if c = [] then p else p @ [c])"

definition path_name :: "path \<Rightarrow> string" where
  "path_name p = (if p = [] then [] else last p)"

definition path_parent :: "path \<Rightarrow> path" where
  "path_parent p = butlast p"

text \<open>\<^verbatim>\<open>s.endswith(suffix)\<close> and \<^verbatim>\<open>s.rstrip(chars)\<close>.\<close>

definition endswith :: "string \<Rightarrow> string \<Rightarrow> bool" where
  "endswith s suffix =
     (length suffix \<le> length s \<and> drop (length s - length suffix) s = suffix)"

definition rstrip :: "string \<Rightarrow> string \<Rightarrow> string" where
  "rstrip s chars = rev (dropWhile (\<lambda>c. c \<in> set chars) (rev s))"

text \<open>\<^verbatim>\<open>str(i)\<close> for the index of a split, an integer that is not negative.\<close>

definition digit_char :: "nat \<Rightarrow> char" where
  "digit_char d = ''0123456789'' ! d"

function str_nat :: "nat \<Rightarrow> string" where
  "str_nat n = (if n < 10 then [digit_char n] else str_nat (n div 10) @ [digit_char (n mod 10)])"
  by pat_completeness auto
termination
  by (relation "measure id") auto

text \<open>Slices \<^verbatim>\<open>xs[:k]\<close> and \<^verbatim>\<open>xs[k:]\<close>; a negative \<open>k\<close> counts from the end.\<close>

definition slice_to :: "'a list \<Rightarrow> int \<Rightarrow> 'a list" where
  "slice_to xs k = (if k < 0 then take (nat (int (length xs) + k)) xs else take (nat k) xs)"

definition slice_from :: "'a list \<Rightarrow> int \<Rightarrow> 'a list" where
  "slice_from xs k = (if k < 0 then drop (nat (int (length xs) + k)) xs else drop (nat k) xs)"

subsection \<open>Entries, effects, configuration and environment\<close>

record fasta_entry =
  "identifier" :: string
  sequence :: string
  extra :: string

text \<open>
  The effects: \<open>Mkdir p\<close> is \<^verbatim>\<open>p.mkdir(parents=True, exist_ok=True)\<close>; \<open>WriteFasta p es\<close>
  and \<open>WriteFastq p es\<close> open \<open>p\<close> for writing and write the entries \<open>es\<close>;
  \<open>WriteFastaDb p es\<close> and \<open>WriteFastqDb p es\<close> create the database \<open>p\<close> with the entries
  \<open>es\<close>; \<open>Compress p\<close> is \<^verbatim>\<open>compress(p)\<close>. FASTQ entries are of a type \<open>'q\<close> the script
  never looks into.
\<close>

datatype 'q effect =
    Mkdir path
  | WriteFasta path "fasta_entry list"
  | WriteFastq path "'q list"
  | WriteFastaDb path "fasta_entry list"
  | WriteFastqDb path "'q list"
  | Compress path

record config =
  output_path :: path
  data_files :: "path list"
  test_split :: pyfloat
  num_splits :: int
  clean_sequences :: bool
  output_db :: bool
  output_fasta_fastq :: bool
  compress :: bool

record ('q, 'r) env =
  path_exists :: "path \<Rightarrow> bool"
  read_fasta :: "path \<Rightarrow> fasta_entry list"
  read_fastq :: "path \<Rightarrow> 'q list"
  ALL_BASES :: string
  draw_order :: "'r \<Rightarrow> nat \<Rightarrow> nat list \<times> 'r"
  tfs_rng :: 'r

text \<open>
  \<^verbatim>\<open>rng.shuffle(entries)\<close>: the entries are rearranged in the order drawn, and the
  generator moves on.
\<close>

definition rng_shuffle :: "('q, 'r) env \<Rightarrow> 'r \<Rightarrow> 'a list \<Rightarrow> 'a list \<times> 'r" where
  "rng_shuffle env rng entries =
     (case draw_order env rng (length entries) of
        (order, rng') \<Rightarrow> (map (\<lambda>i. entries ! i) order, rng'))"

text \<open>
  What \<^verbatim>\<open>numpy\<close> promises of \<^verbatim>\<open>shuffle\<close>: the order drawn for \<open>n\<close> positions holds each
  of them once.
\<close>

definition shuffles :: "('q, 'r) env \<Rightarrow> bool" where
  "shuffles env = (\<forall>rng n. mset (fst (draw_order env rng n)) = mset [0 ..< n])"

subsection \<open>Writing one split\<close>

text \<open>
  \<^verbatim>\<open>output_fasta_file\<close>, lines 32 to 50: the effects and the list \<^verbatim>\<open>files\<close> it returns.
\<close>

definition output_fasta_file :: "config \<Rightarrow> string \<Rightarrow> fasta_entry list \<Rightarrow> int \<Rightarrow> path
    \<Rightarrow> 'q effect list \<times> path list" where
  "output_fasta_file config filename entries split_index output_path' =
     (if float_gt_zero (test_split config) then
        let test_path = path_join output_path' ''test'';
            train_path = path_join output_path' ''train''
        in ([WriteFasta (path_join test_path filename) (slice_to entries split_index),
             WriteFasta (path_join train_path filename) (slice_from entries split_index)],
            [path_join test_path filename, path_join train_path filename])
      else
        let train_path = output_path'
        in ([WriteFasta (path_join train_path filename) (slice_from entries split_index)],
            [path_join train_path filename]))"

text \<open>\<^verbatim>\<open>output_fastq_file\<close>, lines 53 to 71.\<close>

definition output_fastq_file :: "config \<Rightarrow> string \<Rightarrow> 'q list \<Rightarrow> int \<Rightarrow> path
    \<Rightarrow> 'q effect list \<times> path list" where
  "output_fastq_file config filename entries split_index output_path' =
     (if float_gt_zero (test_split config) then
        let test_path = path_join output_path' ''test'';
            train_path = path_join output_path' ''train''
        in ([WriteFastq (path_join test_path filename) (slice_to entries split_index),
             WriteFastq (path_join train_path filename) (slice_from entries split_index)],
            [path_join test_path filename, path_join train_path filename])
      else
        let train_path = output_path'
        in ([WriteFastq (path_join train_path filename) (slice_from entries split_index)],
            [path_join train_path filename]))"

text \<open>\<^verbatim>\<open>output_fasta_db\<close>, lines 74 to 88, and \<^verbatim>\<open>output_fastq_db\<close>, lines 91 to 105.\<close>

definition output_fasta_db :: "config \<Rightarrow> string \<Rightarrow> fasta_entry list \<Rightarrow> int \<Rightarrow> path
    \<Rightarrow> 'q effect list" where
  "output_fasta_db config filename entries split_index output_path' =
     (if float_gt_zero (test_split config) then
        let test_path = path_join output_path' ''test'';
            train_path = path_join output_path' ''train''
        in [WriteFastaDb (path_join test_path filename) (slice_to entries split_index),
            WriteFastaDb (path_join train_path filename) (slice_from entries split_index)]
      else
        let train_path = output_path'
        in [WriteFastaDb (path_join train_path filename) (slice_from entries split_index)])"

definition output_fastq_db :: "config \<Rightarrow> string \<Rightarrow> 'q list \<Rightarrow> int \<Rightarrow> path
    \<Rightarrow> 'q effect list" where
  "output_fastq_db config filename entries split_index output_path' =
     (if float_gt_zero (test_split config) then
        let test_path = path_join output_path' ''test'';
            train_path = path_join output_path' ''train''
        in [WriteFastqDb (path_join test_path filename) (slice_to entries split_index),
            WriteFastqDb (path_join train_path filename) (slice_from entries split_index)]
      else
        let train_path = output_path'
        in [WriteFastqDb (path_join train_path filename) (slice_from entries split_index)])"

subsection \<open>Processing the files\<close>

text \<open>
  Lines 120 and 141: \<^verbatim>\<open>int(len(entries) * config.test_split)\<close>, a product of floats.
\<close>

definition split_index_of :: "nat \<Rightarrow> pyfloat \<Rightarrow> pyerror + int" where
  "split_index_of n t =
     (case int_times_float (int n) t of Inl err \<Rightarrow> Inl err | Inr x \<Rightarrow> py_int x)"

text \<open>
  Line 119: \<^verbatim>\<open>re.sub(f"[^{dna.ALL_BASES}]", '', entry.sequence)\<close> removes the characters
  that are not among \<^verbatim>\<open>dna.ALL_BASES\<close>, a string of letters.
\<close>

definition clean_entry :: "('q, 'r) env \<Rightarrow> fasta_entry \<Rightarrow> fasta_entry" where
  "clean_entry env entry =
     entry\<lparr>sequence := filter (\<lambda>c. c \<in> set (ALL_BASES env)) (sequence entry)\<rparr>"

text \<open>
  The state of the loop over the splits: the entries as they are now arranged, the list
  \<^verbatim>\<open>files\<close>, the effects so far and the generator.
\<close>

type_synonym ('a, 'q, 'r) splitting = "'a list \<times> path list \<times> 'q effect list \<times> 'r"

text \<open>One round of the loop of lines 122 to 128.\<close>

definition fasta_split :: "('q, 'r) env \<Rightarrow> config \<Rightarrow> string \<Rightarrow> int \<Rightarrow> path
    \<Rightarrow> (fasta_entry, 'q, 'r) splitting \<Rightarrow> nat \<Rightarrow> (fasta_entry, 'q, 'r) splitting" where
  "fasta_split env config filename split_index output_path' s i =
     (case s of (entries, files, effects, rng) \<Rightarrow>
        case rng_shuffle env rng entries of (entries', rng') \<Rightarrow>
          let path = (if float_gt_zero (test_split config)
                      then path_join output_path' (str_nat i) else output_path');
              written = (if output_fasta_fastq config
                         then output_fasta_file config filename entries' split_index path
                         else ([], []));
              stored = (if output_db config
                        then output_fasta_db config filename entries' split_index path
                        else [])
          in (entries', files @ snd written, effects @ fst written @ stored, rng'))"

text \<open>One round of the loop of lines 143 to 149.\<close>

definition fastq_split :: "('q, 'r) env \<Rightarrow> config \<Rightarrow> string \<Rightarrow> int \<Rightarrow> path
    \<Rightarrow> ('q, 'q, 'r) splitting \<Rightarrow> nat \<Rightarrow> ('q, 'q, 'r) splitting" where
  "fastq_split env config filename split_index output_path' s i =
     (case s of (entries, files, effects, rng) \<Rightarrow>
        case rng_shuffle env rng entries of (entries', rng') \<Rightarrow>
          let path = (if float_gt_zero (test_split config)
                      then path_join output_path' (str_nat i) else output_path');
              written = (if output_fasta_fastq config
                         then output_fastq_file config filename entries' split_index path
                         else ([], []));
              stored = (if output_db config
                        then output_fastq_db config filename entries' split_index path
                        else [])
          in (entries', files @ snd written, effects @ fst written @ stored, rng'))"

text \<open>
  Lines 116 to 119: the entries of a FASTA file, cleaned when \<^verbatim>\<open>--clean-sequences\<close> is
  given.
\<close>

definition fasta_entries :: "('q, 'r) env \<Rightarrow> config \<Rightarrow> path \<Rightarrow> fasta_entry list" where
  "fasta_entries env config fasta_file =
     (let entries = read_fasta env fasta_file
      in if clean_sequences config then map (clean_entry env) entries else entries)"

text \<open>
  The body of the loop of lines 115 to 128, for one file: the list \<^verbatim>\<open>files\<close> or the
  exception, the effects and the generator afterwards. \<^verbatim>\<open>range(config.num_splits)\<close> is
  empty when the number is not positive.
\<close>

definition process_fasta_file :: "('q, 'r) env \<Rightarrow> config \<Rightarrow> path \<Rightarrow> path
    \<Rightarrow> path list \<times> 'q effect list \<times> 'r \<Rightarrow> (pyerror + path list) \<times> 'q effect list \<times> 'r" where
  "process_fasta_file env config output_path' fasta_file s =
     (case s of (files, effects, rng) \<Rightarrow>
        let entries = fasta_entries env config fasta_file
        in case split_index_of (length entries) (test_split config) of
             Inl err \<Rightarrow> (Inl err, effects, rng)
           | Inr split_index \<Rightarrow>
               let filename = rstrip (path_name fasta_file) ''.gz''
               in case foldl (fasta_split env config filename split_index output_path')
                         (entries, files, effects, rng) [0 ..< nat (num_splits config)] of
                    (entries', files', effects', rng') \<Rightarrow> (Inr files', effects', rng'))"

text \<open>The body of the loop of lines 139 to 149, for one file.\<close>

definition process_fastq_file :: "('q, 'r) env \<Rightarrow> config \<Rightarrow> path \<Rightarrow> path
    \<Rightarrow> path list \<times> 'q effect list \<times> 'r \<Rightarrow> (pyerror + path list) \<times> 'q effect list \<times> 'r" where
  "process_fastq_file env config output_path' fastq_file s =
     (case s of (files, effects, rng) \<Rightarrow>
        let entries = read_fastq env fastq_file
        in case split_index_of (length entries) (test_split config) of
             Inl err \<Rightarrow> (Inl err, effects, rng)
           | Inr split_index \<Rightarrow>
               let filename = rstrip (path_name fastq_file) ''.gz''
               in case foldl (fastq_split env config filename split_index output_path')
                         (entries, files, effects, rng) [0 ..< nat (num_splits config)] of
                    (entries', files', effects', rng') \<Rightarrow> (Inr files', effects', rng'))"

text \<open>
  The loops over the files, lines 115 and 139: an exception ends the loop, with the
  effects that have happened.
\<close>

fun process_files :: "(path \<Rightarrow> path list \<times> 'q effect list \<times> 'r
      \<Rightarrow> (pyerror + path list) \<times> 'q effect list \<times> 'r)
    \<Rightarrow> path list \<Rightarrow> path list \<times> 'q effect list \<times> 'r
    \<Rightarrow> (pyerror + path list) \<times> 'q effect list \<times> 'r" where
  "process_files body [] (files, effects, rng) = (Inr files, effects, rng)"
| "process_files body (file # rest) s =
     (case body file s of
        (Inl err, effects, rng) \<Rightarrow> (Inl err, effects, rng)
      | (Inr files, effects, rng) \<Rightarrow> process_files body rest (files, effects, rng))"

text \<open>
  \<^verbatim>\<open>process_fasta_files\<close>, lines 108 to 129, and \<^verbatim>\<open>process_fastq_files\<close>, lines 132 to
  150: they start with an empty list \<^verbatim>\<open>files\<close>; the result holds the effects of the call.
\<close>

definition process_fasta_files :: "('q, 'r) env \<Rightarrow> config \<Rightarrow> path list \<Rightarrow> path \<Rightarrow> 'r
    \<Rightarrow> (pyerror + path list) \<times> 'q effect list \<times> 'r" where
  "process_fasta_files env config fasta_files output_path' rng =
     process_files (process_fasta_file env config output_path') fasta_files ([], [], rng)"

definition process_fastq_files :: "('q, 'r) env \<Rightarrow> config \<Rightarrow> path list \<Rightarrow> path \<Rightarrow> 'r
    \<Rightarrow> (pyerror + path list) \<times> 'q effect list \<times> 'r" where
  "process_fastq_files env config fastq_files output_path' rng =
     process_files (process_fastq_file env config output_path') fastq_files ([], [], rng)"

subsection \<open>The effects of one split, and the successive shuffles\<close>

text \<open>
  What a round of the loops writes once the entries are shuffled: the part of
  \<open>fasta_split\<close> and \<open>fastq_split\<close> after the shuffle.
\<close>

definition split_path :: "config \<Rightarrow> path \<Rightarrow> nat \<Rightarrow> path" where
  "split_path config output_path' i =
     (if float_gt_zero (test_split config) then path_join output_path' (str_nat i)
      else output_path')"

definition fasta_split_effects :: "config \<Rightarrow> string \<Rightarrow> int \<Rightarrow> path \<Rightarrow> nat
    \<Rightarrow> fasta_entry list \<Rightarrow> 'q effect list" where
  "fasta_split_effects config filename split_index output_path' i entries =
     (if output_fasta_fastq config
      then fst (output_fasta_file config filename entries split_index
                  (split_path config output_path' i))
      else []) @
     (if output_db config
      then output_fasta_db config filename entries split_index (split_path config output_path' i)
      else [])"

definition fastq_split_effects :: "config \<Rightarrow> string \<Rightarrow> int \<Rightarrow> path \<Rightarrow> nat
    \<Rightarrow> 'q list \<Rightarrow> 'q effect list" where
  "fastq_split_effects config filename split_index output_path' i entries =
     (if output_fasta_fastq config
      then fst (output_fastq_file config filename entries split_index
                  (split_path config output_path' i))
      else []) @
     (if output_db config
      then output_fastq_db config filename entries split_index (split_path config output_path' i)
      else [])"

text \<open>
  The claim's description of the shuffling: the entry list is shuffled in place once
  per split, each shuffle starting from the arrangement the one before left.
  \<open>successive_shuffles env rng entries n\<close> is the list of the \<open>n\<close> arrangements, with the
  generator afterwards.
\<close>

primrec successive_shuffles :: "('q, 'r) env \<Rightarrow> 'r \<Rightarrow> 'a list \<Rightarrow> nat \<Rightarrow> 'a list list \<times> 'r" where
  "successive_shuffles env rng entries 0 = ([], rng)"
| "successive_shuffles env rng entries (Suc n) =
     (case rng_shuffle env rng entries of
        (entries', rng') \<Rightarrow>
          (case successive_shuffles env rng' entries' n of
             (rest, rng'') \<Rightarrow> (entries' # rest, rng'')))"

text \<open>
  What the claim says of one split: the shuffled list \<open>xs\<close> is a rearrangement of the
  entries, and cut at \<open>k\<close> it gives a test part of \<open>k\<close> entries and a training part of the
  others, nothing lost and nothing twice.
\<close>

definition split_of :: "'a list \<Rightarrow> int \<Rightarrow> 'a list \<Rightarrow> bool" where
  "split_of entries k xs =
     (mset xs = mset entries \<and>
      slice_to xs k = take (nat k) xs \<and>
      slice_from xs k = drop (nat k) xs \<and>
      mset (slice_to xs k) + mset (slice_from xs k) = mset entries \<and>
      length (slice_to xs k) = nat k \<and>
      length (slice_from xs k) = length entries - nat k)"

text \<open>The path an effect is about.\<close>

fun effect_path :: "'q effect \<Rightarrow> path" where
  "effect_path (Mkdir p) = p"
| "effect_path (WriteFasta p es) = p"
| "effect_path (WriteFastq p es) = p"
| "effect_path (WriteFastaDb p es) = p"
| "effect_path (WriteFastqDb p es) = p"
| "effect_path (Compress p) = p"

subsection \<open>The main function\<close>

text \<open>Lines 177 and 179: the names of FASTA and of FASTQ files.\<close>

definition is_fasta_name :: "string \<Rightarrow> bool" where
  "is_fasta_name s = (endswith s ''.fasta'' \<or> endswith s ''.fasta.gz'')"

definition is_fastq_name :: "string \<Rightarrow> bool" where
  "is_fastq_name s = (endswith s ''.fastq'' \<or> endswith s ''.fastq.gz'')"

text \<open>
  The loop of lines 173 to 183 over the data files: \<open>None\<close> when it returns 1, and else
  the two lists.
\<close>

fun sort_files :: "('q, 'r) env \<Rightarrow> path list \<Rightarrow> path list \<times> path list
    \<Rightarrow> (path list \<times> path list) option" where
  "sort_files env [] acc = Some acc"
| "sort_files env (file # rest) (fasta_files, fastq_files) =
     (if \<not> path_exists env file then None
      else if is_fasta_name (path_name file)
        then sort_files env rest (fasta_files @ [file], fastq_files)
      else if is_fastq_name (path_name file)
        then sort_files env rest (fasta_files, fastq_files @ [file])
      else None)"

text \<open>One round of the loop of lines 186 to 194.\<close>

definition make_directories :: "config \<Rightarrow> path \<Rightarrow> nat \<Rightarrow> 'q effect list" where
  "make_directories config output_path' i =
     (if float_gt_zero (test_split config) then
        let train_path = path_join output_path' (str_nat i);
            test_path = path_join train_path ''test'';
            train_path = path_join train_path ''train''
        in [Mkdir test_path, Mkdir train_path]
      else [Mkdir output_path'])"

text \<open>
  \<^verbatim>\<open>main\<close>, lines 153 to 205, after the arguments are parsed: what it returns, or the
  exception that ends it, and the effects in order. It returns 1 from the checks and
  \<^verbatim>\<open>None\<close> at its end.
\<close>

datatype main_result = Returned "int option" | Raised pyerror

definition main :: "('q, 'r) env \<Rightarrow> config \<Rightarrow> main_result \<times> 'q effect list" where
  "main env config =
     (let output_path' = output_path config
      in if \<not> path_exists env (path_parent output_path') then (Returned (Some 1), [])
         else if 1 < num_splits config \<and> float_eq_zero (test_split config)
           then (Returned (Some 1), [])
         else if \<not> output_fasta_fastq config \<and> \<not> output_db config
           then (Returned (Some 1), [])
         else case sort_files env (data_files config) ([], []) of
             None \<Rightarrow> (Returned (Some 1), [])
           | Some (fasta_files, fastq_files) \<Rightarrow>
               let made = concat (map (make_directories config output_path')
                                    [0 ..< nat (num_splits config)]);
                   rng = tfs_rng env
               in case (if fasta_files \<noteq> []
                        then process_fasta_files env config fasta_files output_path' rng
                        else (Inr [], [], rng)) of
                    (Inl err, effects1, rng1) \<Rightarrow> (Raised err, made @ effects1)
                  | (Inr written1, effects1, rng1) \<Rightarrow>
                      (case (if fastq_files \<noteq> []
                             then process_fastq_files env config fastq_files output_path' rng1
                             else (Inr [], [], rng1)) of
                         (Inl err, effects2, rng2) \<Rightarrow> (Raised err, made @ effects1 @ effects2)
                       | (Inr written2, effects2, rng2) \<Rightarrow>
                           (Returned None,
                            made @ effects1 @ effects2 @
                            (if compress config then map Compress (written1 @ written2)
                             else []))))"

subsection \<open>A run to evaluate the script at\<close>

text \<open>
  Four entries in \<^verbatim>\<open>reads.fasta.gz\<close>; every path exists; the generator is a counter, and
  a shuffle reverses the list.
\<close>

definition example_entries :: "fasta_entry list" where
  "example_entries =
     [\<lparr>identifier = ''a'', sequence = ''ACGT'', extra = ''''\<rparr>,
      \<lparr>identifier = ''b'', sequence = ''CCGT'', extra = ''''\<rparr>,
      \<lparr>identifier = ''c'', sequence = ''GGTA'', extra = ''''\<rparr>,
      \<lparr>identifier = ''d'', sequence = ''TTAC'', extra = ''''\<rparr>]"

definition example_env :: "(fasta_entry, nat) env" where
  "example_env =
     \<lparr>path_exists = (\<lambda>p. True),
      read_fasta = (\<lambda>p. example_entries),
      read_fastq = (\<lambda>p. example_entries),
      ALL_BASES = ''ACGTN'',
      draw_order = (\<lambda>rng n. (rev [0 ..< n], Suc rng)),
      tfs_rng = 0\<rparr>"

text \<open>
  \<^verbatim>\<open>prepare_local_dataset.py out reads.fasta.gz --test-split t --num-splits 2
  --output-fasta-fastq\<close>.
\<close>

definition example_config :: "pyfloat \<Rightarrow> config" where
  "example_config t =
     \<lparr>output_path = [''out''], data_files = [[''data'', ''reads.fasta.gz'']], test_split = t,
      num_splits = 2, clean_sequences = False, output_db = False, output_fasta_fastq = True,
      compress = False\<rparr>"

section \<open>Properties of the class weights\<close>

lemma update_fresh: "k \<notin> fst ` set acc \<Longrightarrow> AList.update k v acc = acc @ [(k, v)]"
  by (induction acc) auto

lemma set_foldl_update_values:
  "snd ` set (foldl (\<lambda>d (k, v). AList.update k v d) acc kvs) \<subseteq> snd ` set acc \<union> snd ` set kvs"
proof (induction kvs arbitrary: acc)
  case Nil then show ?case by simp
next
  case (Cons a kvs)
  obtain k v where a: "a = (k, v)" by (cases a)
  have "snd ` set (AList.update k v acc) \<subseteq> snd ` set acc \<union> {v}"
    by (induction acc) auto
  with Cons[of "AList.update k v acc"] show ?case unfolding a by auto
qed

lemma dict_zip_values: "snd ` set (dict_zip ks vs) \<subseteq> set vs"
proof -
  have "snd ` set (zip ks vs) \<subseteq> set vs" by (auto dest: set_zip_rightD)
  with set_foldl_update_values[of "[]" "zip ks vs"] show ?thesis
    unfolding dict_zip_def by auto
qed

lemma retained_samples_eq:
  "retained_samples d loaded = filter (\<lambda>s. name s \<in> fst ` set d) loaded"
  unfolding retained_samples_def Let_def by (induction loaded) auto

lemma retarget_distinct:
  "distinct (map name ss) \<Longrightarrow> \<forall>s \<in> set ss. name s \<in> fst ` set d \<and> name s \<notin> fst ` set acc \<Longrightarrow>
   retarget d acc ss = Inr (acc @ map (\<lambda>s. (name s, the (map_of d (name s)))) ss)"
proof (induction ss arbitrary: acc)
  case Nil then show ?case by simp
next
  case (Cons s ss)
  from Cons.prems obtain v where v: "map_of d (name s) = Some v"
    by (metis list.set_intros(1) map_of_eq_None_iff not_Some_eq)
  have fresh: "name s \<notin> fst ` set acc" using Cons.prems by simp
  have "name t \<in> fst ` set d \<and> name t \<notin> fst ` set (AList.update (name s) v acc)"
    if t: "t \<in> set ss" for t
  proof -
    from t Cons.prems(1) have "name t \<noteq> name s" by (auto simp: image_iff)
    moreover from t Cons.prems(2) have "name t \<in> fst ` set d" "name t \<notin> fst ` set acc" by simp_all
    ultimately show ?thesis by (simp add: update_fresh[OF fresh])
  qed
  then have "\<forall>t \<in> set ss. name t \<in> fst ` set d \<and> name t \<notin> fst ` set (AList.update (name s) v acc)"
    by blast
  with Cons.IH[of "AList.update (name s) v acc"] Cons.prems
  show ?case by (simp add: dict_lookup_def v update_fresh[OF fresh])
qed

lemma comprehension_all_ok:
  "\<forall>x \<in> set xs. f x = Inr (g x) \<Longrightarrow> comprehension f xs = Inr (map g xs)"
  by (induction xs) auto

lemma sum_list_two_classes:
  "sum_list (map (\<lambda>s. if P s then a else b) ss) =
     of_nat (length (filter P ss)) * a + of_nat (length (filter (\<lambda>s. \<not> P s) ss)) * (b::rat)"
  by (induction ss) (auto simp: algebra_simps)

lemma sum_list_const_filter:
  "sum_list (map (\<lambda>s. if P s then a else b) (filter P ss)) = of_nat (length (filter P ss)) * (a::rat)"
  by (induction ss) (auto simp: algebra_simps)

lemma sum_list_const_filter_not:
  "sum_list (map (\<lambda>s. if P s then a else b) (filter (\<lambda>s. \<not> P s) ss)) =
     of_nat (length (filter (\<lambda>s. \<not> P s) ss)) * (b::rat)"
  by (induction ss) (auto simp: algebra_simps)

lemma zip_filter_snd:
  "map snd (filter (\<lambda>(s, x). Q s) (zip ss (map g ss))) = map g (filter Q ss)"
  by (induction ss) auto

lemma sum_list_indicator:
  "\<forall>s \<in> set ss. v s = 0 \<or> v s = (1::int) \<Longrightarrow>
   sum_list (map v ss) = int (length (filter (\<lambda>s. v s \<noteq> 0) ss))"
  by (induction ss) auto

lemma length_filter_split:
  "int (length ss) - int (length (filter P ss)) = int (length (filter (\<lambda>s. \<not> P s) ss))"
  using sum_length_filter_compl[of P ss] by simp

lemma map_of_named:
  "distinct (map name ss) \<Longrightarrow> s \<in> set ss \<Longrightarrow>
   map_of (map (\<lambda>s. (name s, v s)) ss) (name s) = Some (v s)"
  by (rule map_of_is_SomeI) (auto simp: comp_def)

lemma half_mass: "0 < n \<Longrightarrow> of_nat n * (1 / 2 / of_int (int n)) = (1 / 2 :: rat)"
  by simp

lemma weights_of_named:
  fixes ss :: "'s sample list" and v :: "'s sample \<Rightarrow> int"
  assumes d: "distinct (map name ss)" and b: "\<forall>s \<in> set ss. v s = 0 \<or> v s = 1"
  defines "tg \<equiv> map (\<lambda>s. (name s, v s)) ss"
  defines "np \<equiv> sum_list (map snd tg)"
  defines "nn \<equiv> int (length tg) - np"
  defines "g \<equiv> (\<lambda>s. if v s \<noteq> 0 then 1 / 2 / of_int np else 1 / 2 / (of_int nn :: rat))"
  shows "comprehension (class_weight tg np nn) ss = Inr (map g ss)"
    and "\<forall>s \<in> set ss. positive_in tg s = (v s \<noteq> 0)"
    and "sum_list (map g (filter (\<lambda>s. v s \<noteq> 0) ss)) = (if \<exists>s \<in> set ss. v s \<noteq> 0 then 1 / 2 else 0)"
    and "sum_list (map g (filter (\<lambda>s. \<not> v s \<noteq> 0) ss)) = (if \<exists>s \<in> set ss. \<not> v s \<noteq> 0 then 1 / 2 else 0)"
    and "sum_list (map g ss) = sum_list (map g (filter (\<lambda>s. v s \<noteq> 0) ss))
           + sum_list (map g (filter (\<lambda>s. \<not> v s \<noteq> 0) ss))"
proof -
  have np: "np = int (length (filter (\<lambda>s. v s \<noteq> 0) ss))"
    unfolding np_def tg_def using sum_list_indicator[OF b] by (simp add: comp_def)
  have nn: "nn = int (length (filter (\<lambda>s. \<not> v s \<noteq> 0) ss))"
    unfolding nn_def np using length_filter_split[of ss "\<lambda>s. v s \<noteq> 0"] by (simp add: tg_def)
  have look: "map_of tg (name s) = Some (v s)" if "s \<in> set ss" for s
    unfolding tg_def using map_of_named[OF d that] .
  have "class_weight tg np nn s = Inr (g s)" if s: "s \<in> set ss" for s
  proof (cases "v s \<noteq> 0")
    case True
    with s have "filter (\<lambda>s. v s \<noteq> 0) ss \<noteq> []" by (auto simp: filter_empty_conv)
    then have "np \<noteq> 0" unfolding np by simp
    with True show ?thesis
      by (simp add: class_weight_def dict_lookup_def look[OF s] truthy_def py_div_def g_def)
  next
    case False
    with s have "filter (\<lambda>s. \<not> v s \<noteq> 0) ss \<noteq> []" by (auto simp: filter_empty_conv)
    then have "nn \<noteq> 0" unfolding nn by simp
    with False show ?thesis
      by (simp add: class_weight_def dict_lookup_def look[OF s] truthy_def py_div_def g_def)
  qed
  then show "comprehension (class_weight tg np nn) ss = Inr (map g ss)"
    by (simp add: comprehension_all_ok)
  show "\<forall>s \<in> set ss. positive_in tg s = (v s \<noteq> 0)"
    by (simp add: positive_in_def look truthy_def)
  show "sum_list (map g (filter (\<lambda>s. v s \<noteq> 0) ss)) = (if \<exists>s \<in> set ss. v s \<noteq> 0 then 1 / 2 else 0)"
  proof (cases "\<exists>s \<in> set ss. v s \<noteq> 0")
    case True
    then have "0 < length (filter (\<lambda>s. v s \<noteq> 0) ss)" by (auto simp: filter_empty_conv)
    with True show ?thesis
      unfolding g_def sum_list_const_filter np by (simp only: half_mass if_True)
  next
    case False
    then have "filter (\<lambda>s. v s \<noteq> 0) ss = []" by (auto simp: filter_empty_conv)
    with False show ?thesis by simp
  qed
  show "sum_list (map g (filter (\<lambda>s. \<not> v s \<noteq> 0) ss)) = (if \<exists>s \<in> set ss. \<not> v s \<noteq> 0 then 1 / 2 else 0)"
  proof (cases "\<exists>s \<in> set ss. \<not> v s \<noteq> 0")
    case True
    then have "0 < length (filter (\<lambda>s. \<not> v s \<noteq> 0) ss)" by (auto simp: filter_empty_conv)
    with True show ?thesis
      unfolding g_def sum_list_const_filter_not nn by (simp only: half_mass if_True)
  next
    case False
    then have "filter (\<lambda>s. \<not> v s \<noteq> 0) ss = []" by (auto simp: filter_empty_conv)
    with False show ?thesis by simp
  qed
  show "sum_list (map g ss) = sum_list (map g (filter (\<lambda>s. v s \<noteq> 0) ss))
           + sum_list (map g (filter (\<lambda>s. \<not> v s \<noteq> 0) ss))"
    unfolding g_def
    by (simp only: sum_list_const_filter sum_list_const_filter_not)
       (rule sum_list_two_classes)
qed

text \<open>
  Claim C9, as the code has it. With targets that are 0 or 1 and samples with pairwise
  distinct names, the computation of \<^verbatim>\<open>class_weights\<close> in \<^verbatim>\<open>data_generators\<close> never
  divides by zero: it always returns one weight per retained sample. The positive
  samples jointly receive mass 1/2 when there is one, and mass 0 otherwise; likewise the
  negative samples; and the weights sum to the two masses. So with both classes
  present the weights sum to 1, each class holding 1/2; with exactly one class present
  they sum to 1/2, because the conditional expression of line 87 only evaluates the
  division of the class the sample belongs to; with no retained sample the array is empty.
\<close>

theorem class_weights_mass:
  fixes loaded :: "'s sample list"
  assumes vals: "\<forall>v \<in> set oo_present. v = 0 \<or> v = 1"
    and names: "distinct (map name loaded)"
  shows "\<exists>w. data_generators swab_label oo_present loaded = Inr w \<and>
     length (w_class_weights w) = length (w_samples w) \<and>
     class_mass True w =
       (if \<exists>s \<in> set (w_samples w). positive_in (w_targets w) s then 1 / 2 else 0) \<and>
     class_mass False w =
       (if \<exists>s \<in> set (w_samples w). \<not> positive_in (w_targets w) s then 1 / 2 else 0) \<and>
     sum_list (w_class_weights w) = class_mass True w + class_mass False w"
proof -
  define d where "d = dict_zip swab_label oo_present"
  define ss where "ss = retained_samples d loaded"
  define v where "v = (\<lambda>s :: 's sample. the (map_of d (name s)))"
  define tg where "tg = map (\<lambda>s. (name s, v s)) ss"
  define np where "np = sum_list (map snd tg)"
  define nn where "nn = int (length tg) - np"
  define g where "g = (\<lambda>s. if v s \<noteq> 0 then 1 / 2 / of_int np else 1 / 2 / (of_int nn :: rat))"
  have ss: "ss = filter (\<lambda>s. name s \<in> fst ` set d) loaded"
    unfolding ss_def by (rule retained_samples_eq)
  have dist: "distinct (map name ss)"
    unfolding ss using names by (simp add: distinct_map_filter)
  have keys: "\<forall>s \<in> set ss. name s \<in> fst ` set d \<and> name s \<notin> fst ` set []"
    unfolding ss by simp
  have rt: "retarget d [] ss = Inr tg"
    using retarget_distinct[OF dist keys] by (simp add: tg_def v_def)
  have bin: "\<forall>s \<in> set ss. v s = 0 \<or> v s = 1"
  proof
    fix s assume "s \<in> set ss"
    with keys obtain x where x: "map_of d (name s) = Some x"
      by (metis map_of_eq_None_iff not_Some_eq)
    then have "x \<in> snd ` set d" by (metis map_of_SomeD snd_conv image_eqI)
    with dict_zip_values[of swab_label oo_present] have "x \<in> set oo_present"
      unfolding d_def by blast
    with vals x show "v s = 0 \<or> v s = 1" by (simp add: v_def)
  qed
  note W = weights_of_named[OF dist bin, folded tg_def, folded np_def, folded nn_def, folded g_def]
  define w where "w = \<lparr>w_samples = ss, w_targets = tg, w_num_positive = np,
    w_num_negative = nn, w_class_weights = map g ss\<rparr>"
  have run: "data_generators swab_label oo_present loaded = Inr w"
    unfolding data_generators_def Let_def
    by (simp add: d_def[symmetric] ss_def[symmetric] rt np_def[symmetric] nn_def[symmetric]
        W(1) w_def)
  have pos: "filter (\<lambda>(s, x). positive_in tg s = True) (zip ss (map g ss)) =
      filter (\<lambda>(s, x). v s \<noteq> 0) (zip ss (map g ss))"
    by (rule filter_cong) (use W(2) in \<open>auto dest: set_zip_leftD\<close>)
  have neg: "filter (\<lambda>(s, x). positive_in tg s = False) (zip ss (map g ss)) =
      filter (\<lambda>(s, x). \<not> v s \<noteq> 0) (zip ss (map g ss))"
    by (rule filter_cong) (use W(2) in \<open>auto dest: set_zip_leftD\<close>)
  have mT: "class_mass True w = sum_list (map g (filter (\<lambda>s. v s \<noteq> 0) ss))"
    unfolding class_mass_def by (simp only: w_def weighting.simps pos zip_filter_snd)
  have mF: "class_mass False w = sum_list (map g (filter (\<lambda>s. \<not> v s \<noteq> 0) ss))"
    unfolding class_mass_def by (simp only: w_def weighting.simps neg zip_filter_snd)
  have eT: "(\<exists>s \<in> set (w_samples w). positive_in (w_targets w) s) = (\<exists>s \<in> set ss. v s \<noteq> 0)"
    using W(2) by (auto simp: w_def)
  have eF: "(\<exists>s \<in> set (w_samples w). \<not> positive_in (w_targets w) s) = (\<exists>s \<in> set ss. \<not> v s \<noteq> 0)"
    using W(2) by (auto simp: w_def)
  have "length (w_class_weights w) = length (w_samples w)" by (simp add: w_def)
  moreover have "class_mass True w =
       (if \<exists>s \<in> set (w_samples w). positive_in (w_targets w) s then 1 / 2 else 0)"
    unfolding mT eT by (rule W(3))
  moreover have "class_mass False w =
       (if \<exists>s \<in> set (w_samples w). \<not> positive_in (w_targets w) s then 1 / 2 else 0)"
    unfolding mF eF by (rule W(4))
  moreover have "sum_list (w_class_weights w) = class_mass True w + class_mass False w"
    unfolding mT mF using W(5) by (simp add: w_def)
  ultimately show ?thesis using run by blast
qed

text \<open>The theorem at three samples, two positive and one negative.\<close>

theorem class_weights_mass_witness:
  "distinct (map name [\<lparr>name = ''swab1'', payload = ()\<rparr>, \<lparr>name = ''swab2'', payload = ()\<rparr>,
           \<lparr>name = ''swab3'', payload = ()\<rparr>]) \<and>
   (\<exists>w. data_generators [''swab1'', ''swab2'', ''swab3''] [1, 0, 1]
          [\<lparr>name = ''swab1'', payload = ()\<rparr>, \<lparr>name = ''swab2'', payload = ()\<rparr>,
           \<lparr>name = ''swab3'', payload = ()\<rparr>] = Inr w \<and>
     w_class_weights w = [1 / 4, 1 / 2, 1 / 4] \<and>
     class_mass True w = 1 / 2 \<and> class_mass False w = 1 / 2 \<and>
     sum_list (w_class_weights w) = 1)"
proof -
  let ?vs = "[1, 0, 1 :: int]"
  let ?ss = "[\<lparr>name = ''swab1'', payload = ()\<rparr>, \<lparr>name = ''swab2'', payload = ()\<rparr>,
           \<lparr>name = ''swab3'', payload = ()\<rparr>]"
  have h1: "\<forall>v \<in> set ?vs. v = 0 \<or> v = 1" by simp
  have h2: "distinct (map name ?ss)" by simp
  from class_weights_mass[OF h1 h2, of "[''swab1'', ''swab2'', ''swab3'']"]
  obtain w where w: "data_generators [''swab1'', ''swab2'', ''swab3''] ?vs ?ss = Inr w"
    and mT: "class_mass True w =
       (if \<exists>s \<in> set (w_samples w). positive_in (w_targets w) s then 1 / 2 else 0)"
    and mF: "class_mass False w =
       (if \<exists>s \<in> set (w_samples w). \<not> positive_in (w_targets w) s then 1 / 2 else 0)"
    and sm: "sum_list (w_class_weights w) = class_mass True w + class_mass False w"
    by blast
  have ev: "data_generators [''swab1'', ''swab2'', ''swab3''] ?vs ?ss =
      Inr \<lparr>w_samples = ?ss, w_targets = [(''swab1'', 1), (''swab2'', 0), (''swab3'', 1)],
        w_num_positive = 2, w_num_negative = 1, w_class_weights = [1 / 4, 1 / 2, 1 / 4]\<rparr>"
    by (simp add: data_generators_def dict_zip_def retained_samples_def dict_lookup_def
      class_weight_def truthy_def py_div_def Let_def)
  from w ev have weq: "w = \<lparr>w_samples = ?ss,
        w_targets = [(''swab1'', 1), (''swab2'', 0), (''swab3'', 1)],
        w_num_positive = 2, w_num_negative = 1, w_class_weights = [1 / 4, 1 / 2, 1 / 4]\<rparr>"
    by simp
  have "class_mass True w = 1 / 2" using mT by (simp add: weq positive_in_def truthy_def)
  moreover have "class_mass False w = 1 / 2" using mF by (simp add: weq positive_in_def truthy_def)
  moreover have "w_class_weights w = [1 / 4, 1 / 2, 1 / 4]" by (simp add: weq)
  ultimately show ?thesis using h2 w sm by simp
qed

text \<open>
  With two positive samples and no negative one, no division by zero takes place: the
  weights are 1/4 each.
\<close>

theorem class_weights_absent_class_counterexample:
  "data_generators [''swab1'', ''swab2''] [1, 1]
      [\<lparr>name = ''swab1'', payload = ()\<rparr>, \<lparr>name = ''swab2'', payload = ()\<rparr>]
    = Inr \<lparr>w_samples = [\<lparr>name = ''swab1'', payload = ()\<rparr>, \<lparr>name = ''swab2'', payload = ()\<rparr>],
           w_targets = [(''swab1'', 1), (''swab2'', 1)],
           w_num_positive = 2, w_num_negative = 0, w_class_weights = [1 / 4, 1 / 4]\<rparr>"
  by (simp add: data_generators_def dict_zip_def retained_samples_def dict_lookup_def
      class_weight_def truthy_def py_div_def Let_def)

section \<open>Properties of the GAST models\<close>

lemma generator_loop:
  "foldl (generator_block self (noise_projection self)) (conditioned_set self 0, ls) [0 ..< n] =
     (conditioned_set self n, ls @ concat (map (\<lambda>i. [generator_csab self i, Add]) [0 ..< n]))"
  by (induction n) (simp_all add: generator_block_def Let_def)

lemma GastGenerator_build_model_eq:
  "GastGenerator_build_model self =
     (if include_class self then Inl (AttributeError ''num_samples'')
      else Inr \<lparr>inputs = [Input [Some (noise_dim self)] float32 (Some ''noise''),
                        Input [Some 1] int32 (Some ''cardinality'')],
              outputs = Apply (spectral_dense (GastGenerator_attrs.latent_dim self)
                  (GastGenerator_attrs.use_spectral_norm self))
                [conditioned_set self (nat (GastGenerator_attrs.stack self))],
              layers = [Dense (cond_dim self) (Some (GastGenerator_attrs.activation self)),
                  SampleSet (max_set_size self) (GastGenerator_attrs.embed_dim self)]
                @ concat (map (\<lambda>i. [generator_csab self i, Add])
                    [0 ..< nat (GastGenerator_attrs.stack self)])
                @ [spectral_dense (GastGenerator_attrs.latent_dim self)
                    (GastGenerator_attrs.use_spectral_norm self)]\<rparr>)"
  unfolding GastGenerator_build_model_def Let_def
  using generator_loop[of self "[Dense (cond_dim self) (Some (GastGenerator_attrs.activation self)),
                  SampleSet (max_set_size self) (GastGenerator_attrs.embed_dim self)]"
      "nat (GastGenerator_attrs.stack self)"]
  by (simp add: noise_projection_def)

lemma GastGenerator_new_Inr:
  assumes "GastGenerator_new kw = Inr g"
  obtains ms nd ed ld st nh na mha usn act cd ff mlp pln ic nc cdim where
    "required_int kw ''max_set_size'' = Inr ms" "required_int kw ''noise_dim'' = Inr nd"
    "required_int kw ''embed_dim'' = Inr ed" "required_int kw ''latent_dim'' = Inr ld"
    "required_int kw ''stack'' = Inr st" "required_int kw ''num_heads'' = Inr nh"
    "required_int kw ''num_anchors'' = Inr na" "default_bool kw ''use_keras_mha'' False = Inr mha"
    "default_bool kw ''use_spectral_norm'' True = Inr usn"
    "default_str kw ''activation'' ''relu'' = Inr act"
    "default_none kw ''cond_dim'' = Inr cd" "default_none kw ''ff_dim'' = Inr ff"
    "default_none kw ''mlp_dim'' = Inr mlp" "default_bool kw ''pre_layernorm'' True = Inr pln"
    "default_bool kw ''include_class'' False = Inr ic" "default_none kw ''num_classes'' = Inr nc"
    "default_none kw ''class_dim'' = Inr cdim"
    "GastGenerator_init ms nd ed ld st nh na mha usn act cd ff mlp pln ic nc cdim = Inr g"
  using assms unfolding GastGenerator_new_def bind_result_def
  by (auto split: sum.splits)

lemma generator_csab_cong:
  fixes a :: "'a GastGenerator_attrs_scheme" and b :: "'b GastGenerator_attrs_scheme"
  assumes "GastGenerator_attrs.truncate a = GastGenerator_attrs.truncate b"
  shows "generator_csab a i = generator_csab b i"
    and "noise_projection a = noise_projection b"
  using assms
  by (auto simp: GastGenerator_attrs.truncate_def generator_csab_def noise_projection_def)

lemma conditioned_set_cong:
  fixes a :: "'a GastGenerator_attrs_scheme" and b :: "'b GastGenerator_attrs_scheme"
  assumes "GastGenerator_attrs.truncate a = GastGenerator_attrs.truncate b"
  shows "conditioned_set a n = conditioned_set b n"
proof (induction n)
  case 0
  from assms show ?case by (auto simp: GastGenerator_attrs.truncate_def)
next
  case (Suc n)
  then show ?case by (simp add: generator_csab_cong[OF assms])
qed

lemma GastGenerator_build_model_cong:
  fixes a :: "'a GastGenerator_attrs_scheme" and b :: "'b GastGenerator_attrs_scheme"
  assumes "GastGenerator_attrs.truncate a = GastGenerator_attrs.truncate b"
  shows "GastGenerator_build_model a = GastGenerator_build_model b"
proof -
  have "(\<lambda>i. [generator_csab a i, Add]) = (\<lambda>i. [generator_csab b i, Add])"
    by (simp add: generator_csab_cong[OF assms])
  moreover from assms have "include_class a = include_class b" "noise_dim a = noise_dim b"
    "GastGenerator_attrs.latent_dim a = GastGenerator_attrs.latent_dim b"
    "GastGenerator_attrs.use_spectral_norm a = GastGenerator_attrs.use_spectral_norm b"
    "GastGenerator_attrs.stack a = GastGenerator_attrs.stack b"
    "cond_dim a = cond_dim b" "GastGenerator_attrs.activation a = GastGenerator_attrs.activation b"
    "max_set_size a = max_set_size b"
    "GastGenerator_attrs.embed_dim a = GastGenerator_attrs.embed_dim b"
    by (auto simp: GastGenerator_attrs.truncate_def)
  ultimately show ?thesis
    unfolding GastGenerator_build_model_eq by (simp add: conditioned_set_cong[OF assms])
qed

lemma GastGenerator_init_Inr:
  assumes "GastGenerator_init ms nd ed ld st nh na mha usn act cd ff mlp pln ic nc cdim = Inr g"
  shows "\<not> ic"
    and "max_set_size g = ms" and "noise_dim g = nd" and "GastGenerator_attrs.embed_dim g = ed"
    and "GastGenerator_attrs.latent_dim g = ld" and "GastGenerator_attrs.stack g = st"
    and "GastGenerator_attrs.num_heads g = nh" and "GastGenerator_attrs.num_anchors g = na"
    and "GastGenerator_attrs.use_keras_mha g = mha"
    and "GastGenerator_attrs.use_spectral_norm g = usn"
    and "GastGenerator_attrs.activation g = act"
    and "cond_dim g = (case cd of Some c \<Rightarrow> c | None \<Rightarrow> ed)"
    and "GastGenerator_attrs.ff_dim g = ff"
    and "mlp_dim g = (case mlp of Some m \<Rightarrow> Some m | None \<Rightarrow> ff)"
    and "GastGenerator_attrs.pre_layernorm g = pln" and "include_class g = ic"
    and "GastGenerator_attrs.num_classes g = nc"
    and "class_dim g = (case cdim of Some c \<Rightarrow> c | None \<Rightarrow> nd)"
    and "GastGenerator_build_model g = Inr (GastGenerator.model g)"
proof -
  define self where "self = \<lparr>max_set_size = ms, noise_dim = nd, embed_dim = ed,
           latent_dim = ld, stack = st, num_heads = nh, num_anchors = na, use_keras_mha = mha,
           use_spectral_norm = usn, activation = act,
           cond_dim = (case cd of Some c \<Rightarrow> c | None \<Rightarrow> ed), ff_dim = ff,
           mlp_dim = (case mlp of Some m \<Rightarrow> Some m | None \<Rightarrow> ff),
           pre_layernorm = pln, include_class = ic, num_classes = nc,
           class_dim = (case cdim of Some c \<Rightarrow> c | None \<Rightarrow> nd)\<rparr>"
  from assms obtain m where m: "GastGenerator_build_model self = Inr m"
    and g: "g = GastGenerator_attrs.extend self \<lparr>GastGenerator.model = m\<rparr>"
    unfolding GastGenerator_init_def Let_def self_def[symmetric]
    by (auto split: sum.splits)
  have tr: "GastGenerator_attrs.truncate g = GastGenerator_attrs.truncate self"
    by (simp add: g GastGenerator_attrs.truncate_def GastGenerator_attrs.extend_def)
  from m show "\<not> ic" unfolding GastGenerator_build_model_eq
    by (auto simp: self_def split: if_splits)
  show "GastGenerator_build_model g = Inr (GastGenerator.model g)"
    unfolding GastGenerator_build_model_cong[OF tr] m
    by (simp add: g GastGenerator_attrs.extend_def)
  show "max_set_size g = ms" "noise_dim g = nd" "GastGenerator_attrs.embed_dim g = ed"
    "GastGenerator_attrs.latent_dim g = ld" "GastGenerator_attrs.stack g = st"
    "GastGenerator_attrs.num_heads g = nh" "GastGenerator_attrs.num_anchors g = na"
    "GastGenerator_attrs.use_keras_mha g = mha"
    "GastGenerator_attrs.use_spectral_norm g = usn"
    "GastGenerator_attrs.activation g = act"
    "cond_dim g = (case cd of Some c \<Rightarrow> c | None \<Rightarrow> ed)"
    "GastGenerator_attrs.ff_dim g = ff"
    "mlp_dim g = (case mlp of Some m \<Rightarrow> Some m | None \<Rightarrow> ff)"
    "GastGenerator_attrs.pre_layernorm g = pln" "include_class g = ic"
    "GastGenerator_attrs.num_classes g = nc"
    "class_dim g = (case cdim of Some c \<Rightarrow> c | None \<Rightarrow> nd)"
    by (simp_all add: g self_def GastGenerator_attrs.extend_def)
qed

lemma GastGenerator_new_model:
  assumes "GastGenerator_new kw = Inr g"
  shows "GastGenerator_build_model g = Inr (GastGenerator.model g)"
    and "\<not> include_class g"
    and "map_of kw ''num_anchors'' = Some (VInt (GastGenerator_attrs.num_anchors g))"
    and "map_of kw ''use_spectral_norm'' = None \<Longrightarrow> GastGenerator_attrs.use_spectral_norm g"
    and "map_of kw ''use_spectral_norm'' = Some (VBool b) \<Longrightarrow> GastGenerator_attrs.use_spectral_norm g = b"
proof -
  from assms obtain ms nd ed ld st nh na mha usn act cd ff mlp pln ic nc cdim where
    na: "required_int kw ''num_anchors'' = Inr na"
    and usn: "default_bool kw ''use_spectral_norm'' True = Inr usn"
    and init: "GastGenerator_init ms nd ed ld st nh na mha usn act cd ff mlp pln ic nc cdim = Inr g"
    by (rule GastGenerator_new_Inr)
  note I = GastGenerator_init_Inr[OF init]
  show "GastGenerator_build_model g = Inr (GastGenerator.model g)" by (rule I(19))
  show "\<not> include_class g" using I(1) I(16) by simp
  show "map_of kw ''num_anchors'' = Some (VInt (GastGenerator_attrs.num_anchors g))"
    using na I(8) by (auto simp: required_int_def split: option.splits pyval.splits)
  show "GastGenerator_attrs.use_spectral_norm g" if "map_of kw ''use_spectral_norm'' = None"
    using usn that I(10) by (simp add: default_bool_def)
  show "GastGenerator_attrs.use_spectral_norm g = b" if "map_of kw ''use_spectral_norm'' = Some (VBool b)"
    using usn that I(10) by (simp add: default_bool_def)
qed

lemma GastGenerator_model_eq:
  assumes "GastGenerator_new kw = Inr g"
  shows "GastGenerator.model g =
     \<lparr>inputs = [Input [Some (noise_dim g)] float32 (Some ''noise''),
                        Input [Some 1] int32 (Some ''cardinality'')],
              outputs = Apply (spectral_dense (GastGenerator_attrs.latent_dim g)
                  (GastGenerator_attrs.use_spectral_norm g))
                [conditioned_set g (nat (GastGenerator_attrs.stack g))],
              layers = [Dense (cond_dim g) (Some (GastGenerator_attrs.activation g)),
                  SampleSet (max_set_size g) (GastGenerator_attrs.embed_dim g)]
                @ concat (map (\<lambda>i. [generator_csab g i, Add])
                    [0 ..< nat (GastGenerator_attrs.stack g)])
                @ [spectral_dense (GastGenerator_attrs.latent_dim g)
                    (GastGenerator_attrs.use_spectral_norm g)]\<rparr>"
  using GastGenerator_new_model(1,2)[OF assms] unfolding GastGenerator_build_model_eq
  by simp

lemma discriminator_loop_layers:
  "snd (fst (foldl (discriminator_block self) ((y, ls), enc) js)) =
     ls @ concat (map (\<lambda>i. [discriminator_isab self i, Add, discriminator_encoder self]) js)"
  by (induction js arbitrary: y ls enc) (simp_all add: discriminator_block_def Let_def)

lemma GastDiscriminator_build_model_layers:
  "layers (GastDiscriminator_build_model self) =
     [Dense (GastDiscriminator_attrs.embed_dim self) None, discriminator_encoder self]
     @ concat (map (\<lambda>i. [discriminator_isab self i, Add, discriminator_encoder self])
         [0 ..< nat (GastDiscriminator_attrs.stack self)])
     @ [Concatenate, Dense (GastDiscriminator_attrs.num_classes self + 1) (Some ''softmax'')]"
  unfolding GastDiscriminator_build_model_def Let_def
  by (simp add: discriminator_loop_layers)

lemma GastDiscriminator_new_Inr:
  assumes "GastDiscriminator_new kw = Inr d"
  obtains ld ed st nh na mha usn act ff pln nc where
    "required_int kw ''num_anchors'' = Inr na"
    "default_bool kw ''use_spectral_norm'' True = Inr usn"
    "d = GastDiscriminator_init ld ed st nh na mha usn act ff pln nc"
  using assms unfolding GastDiscriminator_new_def bind_result_def
  by (auto split: sum.splits)

lemma GastDiscriminator_init_layers:
  assumes "d = GastDiscriminator_init ld ed st nh na mha usn act ff pln nc"
  shows "layers (GastDiscriminator.model d) =
     [Dense (GastDiscriminator_attrs.embed_dim d) None, discriminator_encoder d]
     @ concat (map (\<lambda>i. [discriminator_isab d i, Add, discriminator_encoder d])
         [0 ..< nat (GastDiscriminator_attrs.stack d)])
     @ [Concatenate, Dense (GastDiscriminator_attrs.num_classes d + 1) (Some ''softmax'')]"
    and "GastDiscriminator_attrs.num_anchors d = na"
    and "GastDiscriminator_attrs.use_spectral_norm d = usn"
    and "GastDiscriminator_attrs.stack d = st"
  unfolding assms GastDiscriminator_init_def Let_def
  by (simp_all add: GastDiscriminator_attrs.extend_def GastDiscriminator_build_model_layers
      discriminator_isab_def discriminator_encoder_def)

lemma GastDiscriminator_new_model:
  assumes "GastDiscriminator_new kw = Inr d"
  shows "layers (GastDiscriminator.model d) =
     [Dense (GastDiscriminator_attrs.embed_dim d) None, discriminator_encoder d]
     @ concat (map (\<lambda>i. [discriminator_isab d i, Add, discriminator_encoder d])
         [0 ..< nat (GastDiscriminator_attrs.stack d)])
     @ [Concatenate, Dense (GastDiscriminator_attrs.num_classes d + 1) (Some ''softmax'')]"
    and "map_of kw ''num_anchors'' = Some (VInt (GastDiscriminator_attrs.num_anchors d))"
    and "map_of kw ''use_spectral_norm'' = None \<Longrightarrow> GastDiscriminator_attrs.use_spectral_norm d"
    and "map_of kw ''use_spectral_norm'' = Some (VBool b) \<Longrightarrow>
           GastDiscriminator_attrs.use_spectral_norm d = b"
proof -
  from assms obtain ld ed st nh na mha usn act ff pln nc where
    na: "required_int kw ''num_anchors'' = Inr na"
    and usn: "default_bool kw ''use_spectral_norm'' True = Inr usn"
    and d: "d = GastDiscriminator_init ld ed st nh na mha usn act ff pln nc"
    by (rule GastDiscriminator_new_Inr)
  note I = GastDiscriminator_init_layers[OF d]
  show "layers (GastDiscriminator.model d) =
     [Dense (GastDiscriminator_attrs.embed_dim d) None, discriminator_encoder d]
     @ concat (map (\<lambda>i. [discriminator_isab d i, Add, discriminator_encoder d])
         [0 ..< nat (GastDiscriminator_attrs.stack d)])
     @ [Concatenate, Dense (GastDiscriminator_attrs.num_classes d + 1) (Some ''softmax'')]"
    by (rule I(1))
  show "map_of kw ''num_anchors'' = Some (VInt (GastDiscriminator_attrs.num_anchors d))"
    using na I(2) by (auto simp: required_int_def split: option.splits pyval.splits)
  show "GastDiscriminator_attrs.use_spectral_norm d" if "map_of kw ''use_spectral_norm'' = None"
    using usn that I(3) by (simp add: default_bool_def)
  show "GastDiscriminator_attrs.use_spectral_norm d = b"
    if "map_of kw ''use_spectral_norm'' = Some (VBool b)"
    using usn that I(3) by (simp add: default_bool_def)
qed

lemma filter_concat_blocks:
  "filter P (concat (map (\<lambda>i. f i) js)) = concat (map (\<lambda>i. filter P (f i)) js)"
  by (induction js) simp_all

lemma length_concat_singletons: "length (concat (map (\<lambda>i. [f i]) js)) = length js"
  by (induction js) simp_all

lemma spectral_norm_of_blocks [simp]:
  "spectral_norm_of (generator_csab g i) = Some (GastGenerator_attrs.use_spectral_norm g)"
  "spectral_norm_of (discriminator_isab d i) = Some (GastDiscriminator_attrs.use_spectral_norm d)"
  "spectral_norm_of (discriminator_encoder d) = Some (GastDiscriminator_attrs.use_spectral_norm d)"
  by (simp_all add: generator_csab_def discriminator_isab_def discriminator_encoder_def)

lemma anchors_of_blocks [simp]:
  "anchors_of (generator_csab g i) = Some (GastGenerator_attrs.num_anchors g)"
  "anchors_of (discriminator_isab d i) = Some (GastDiscriminator_attrs.num_anchors d)"
  "is_csab (generator_csab g i)" "is_isab (discriminator_isab d i)"
  "\<not> is_isab (discriminator_encoder d)"
  by (simp_all add: generator_csab_def discriminator_isab_def discriminator_encoder_def)

lemma length_concat_const: "length (concat (map (\<lambda>i. f i) js)) = sum_list (map (\<lambda>i. length (f i)) js)"
  by (induction js) simp_all

lemma sum_list_const_nat: "sum_list (map (\<lambda>i. c) js) = length js * (c::nat)"
  by (induction js) simp_all

text \<open>
  Claim C3. For a generator and for a discriminator constructed without the argument
  \<^verbatim>\<open>use_spectral_norm\<close>, so with its default \<^verbatim>\<open>True\<close>, every layer of the built model that
  takes the argument (each \<^verbatim>\<open>ConditionedSetAttentionBlock\<close>, \<^verbatim>\<open>InducedSetAttentionBlock\<close>
  and \<^verbatim>\<open>InducedSetEncoder\<close>, and the generator's final \<^verbatim>\<open>spectral_dense\<close>) is constructed
  with \<^verbatim>\<open>use_spectral_norm=True\<close>. There are \<open>stack + 1\<close> such layers in the generator
  and \<open>2 * stack + 1\<close> in the discriminator.
\<close>

theorem spectral_norm_default:
  "(map_of kw ''use_spectral_norm'' = None \<and> GastGenerator_new kw = Inr g \<longrightarrow>
      (\<forall>l \<in> set (layers (GastGenerator.model g)).
          spectral_norm_of l \<noteq> None \<longrightarrow> spectral_norm_of l = Some True) \<and>
      length (filter (\<lambda>l. spectral_norm_of l = Some True) (layers (GastGenerator.model g)))
        = nat (GastGenerator_attrs.stack g) + 1) \<and>
   (map_of kw' ''use_spectral_norm'' = None \<and> GastDiscriminator_new kw' = Inr d \<longrightarrow>
      (\<forall>l \<in> set (layers (GastDiscriminator.model d)).
          spectral_norm_of l \<noteq> None \<longrightarrow> spectral_norm_of l = Some True) \<and>
      length (filter (\<lambda>l. spectral_norm_of l = Some True) (layers (GastDiscriminator.model d)))
        = 2 * nat (GastDiscriminator_attrs.stack d) + 1)"
proof (intro conjI impI; elim conjE)
  assume dflt: "map_of kw ''use_spectral_norm'' = None" and new: "GastGenerator_new kw = Inr g"
  note usn = GastGenerator_new_model(4)[OF new dflt]
  note m = GastGenerator_model_eq[OF new]
  show "\<forall>l \<in> set (layers (GastGenerator.model g)).
          spectral_norm_of l \<noteq> None \<longrightarrow> spectral_norm_of l = Some True"
    unfolding m using usn by auto
  show "length (filter (\<lambda>l. spectral_norm_of l = Some True) (layers (GastGenerator.model g)))
        = nat (GastGenerator_attrs.stack g) + 1"
    unfolding m using usn
    by (simp add: filter_concat_blocks length_concat_const sum_list_const_nat)
next
  assume dflt: "map_of kw' ''use_spectral_norm'' = None" and new: "GastDiscriminator_new kw' = Inr d"
  note usn = GastDiscriminator_new_model(3)[OF new dflt]
  note m = GastDiscriminator_new_model(1)[OF new]
  show "\<forall>l \<in> set (layers (GastDiscriminator.model d)).
          spectral_norm_of l \<noteq> None \<longrightarrow> spectral_norm_of l = Some True"
    unfolding m using usn by auto
  show "length (filter (\<lambda>l. spectral_norm_of l = Some True) (layers (GastDiscriminator.model d)))
        = 2 * nat (GastDiscriminator_attrs.stack d) + 1"
    unfolding m using usn
    by (simp add: filter_concat_blocks length_concat_const sum_list_const_nat)
qed

text \<open>
  Claim C6. The generator has exactly \<open>stack\<close> conditioned set attention blocks, each
  constructed with \<^verbatim>\<open>num_anchors\<close> equal to the constructor argument \<^verbatim>\<open>num_anchors\<close>; the
  discriminator has exactly \<open>stack\<close> induced set attention blocks, each constructed with
  \<^verbatim>\<open>num_induce\<close> equal to the constructor argument \<^verbatim>\<open>num_anchors\<close>. The number is an
  argument of the layer, fixed when the model is built: no tensor, and so no input set,
  occurs in a layer.
\<close>

theorem anchors_fixed:
  "(GastGenerator_new kw = Inr g \<longrightarrow>
      map_of kw ''num_anchors'' = Some (VInt (GastGenerator_attrs.num_anchors g)) \<and>
      length (filter is_csab (layers (GastGenerator.model g))) = nat (GastGenerator_attrs.stack g) \<and>
      (\<forall>l \<in> set (layers (GastGenerator.model g)).
          is_csab l \<longrightarrow> anchors_of l = Some (GastGenerator_attrs.num_anchors g))) \<and>
   (GastDiscriminator_new kw' = Inr d \<longrightarrow>
      map_of kw' ''num_anchors'' = Some (VInt (GastDiscriminator_attrs.num_anchors d)) \<and>
      length (filter is_isab (layers (GastDiscriminator.model d)))
        = nat (GastDiscriminator_attrs.stack d) \<and>
      (\<forall>l \<in> set (layers (GastDiscriminator.model d)).
          is_isab l \<longrightarrow> anchors_of l = Some (GastDiscriminator_attrs.num_anchors d)))"
proof (intro conjI impI)
  assume new: "GastGenerator_new kw = Inr g"
  note m = GastGenerator_model_eq[OF new]
  show "map_of kw ''num_anchors'' = Some (VInt (GastGenerator_attrs.num_anchors g))"
    by (rule GastGenerator_new_model(3)[OF new])
  show "length (filter is_csab (layers (GastGenerator.model g))) = nat (GastGenerator_attrs.stack g)"
    unfolding m by (simp add: filter_concat_blocks length_concat_const sum_list_const_nat)
  show "\<forall>l \<in> set (layers (GastGenerator.model g)).
          is_csab l \<longrightarrow> anchors_of l = Some (GastGenerator_attrs.num_anchors g)"
    unfolding m by auto
next
  assume new: "GastDiscriminator_new kw' = Inr d"
  note m = GastDiscriminator_new_model(1)[OF new]
  show "map_of kw' ''num_anchors'' = Some (VInt (GastDiscriminator_attrs.num_anchors d))"
    by (rule GastDiscriminator_new_model(2)[OF new])
  show "length (filter is_isab (layers (GastDiscriminator.model d)))
        = nat (GastDiscriminator_attrs.stack d)"
    unfolding m by (simp add: filter_concat_blocks length_concat_const sum_list_const_nat)
  show "\<forall>l \<in> set (layers (GastDiscriminator.model d)).
          is_isab l \<longrightarrow> anchors_of l = Some (GastDiscriminator_attrs.num_anchors d)"
    unfolding m by auto
qed

text \<open>
  Claim C7. Every generator that was constructed has \<^verbatim>\<open>include_class\<close> false, and its
  model takes exactly two inputs, the noise of shape \<^verbatim>\<open>(noise_dim,)\<close> and the integer
  cardinality of shape \<^verbatim>\<open>(1,)\<close>. Its output is \<^verbatim>\<open>spectral_dense(latent_dim)\<close> applied to
  the set that \<open>conditioned_set\<close> describes: the \<^verbatim>\<open>SampleSet(max_set_size, embed_dim)\<close> of
  the cardinality input, conditioned \<open>stack\<close> times, by a residual conditioned set
  attention block, on the projection of the noise to \<^verbatim>\<open>cond_dim\<close> dimensions. What
  \<^verbatim>\<open>SampleSet\<close> draws from its two arguments and the cardinality is that layer's own.
\<close>

theorem generator_model_wiring:
  assumes "GastGenerator_new kw = Inr g"
  shows "include_class g = False \<and>
     inputs (GastGenerator.model g) =
       [Input [Some (noise_dim g)] float32 (Some ''noise''),
        Input [Some 1] int32 (Some ''cardinality'')] \<and>
     outputs (GastGenerator.model g) =
       Apply (spectral_dense (GastGenerator_attrs.latent_dim g)
                (GastGenerator_attrs.use_spectral_norm g))
         [conditioned_set g (nat (GastGenerator_attrs.stack g))]"
  using GastGenerator_new_model(2)[OF assms] GastGenerator_model_eq[OF assms] by simp







lemma config_lookup:
  "map_of (GastGenerator_get_config g) ''max_set_size'' = Some (VInt (max_set_size g))"
  "map_of (GastGenerator_get_config g) ''noise_dim'' = Some (VInt (noise_dim g))"
  "map_of (GastGenerator_get_config g) ''embed_dim'' = Some (VInt (GastGenerator_attrs.embed_dim g))"
  "map_of (GastGenerator_get_config g) ''latent_dim'' = Some (VInt (GastGenerator_attrs.latent_dim g))"
  "map_of (GastGenerator_get_config g) ''stack'' = Some (VInt (GastGenerator_attrs.stack g))"
  "map_of (GastGenerator_get_config g) ''num_heads'' = Some (VInt (GastGenerator_attrs.num_heads g))"
  "map_of (GastGenerator_get_config g) ''num_anchors'' = Some (VInt (GastGenerator_attrs.num_anchors g))"
  "map_of (GastGenerator_get_config g) ''use_keras_mha'' = Some (VBool (GastGenerator_attrs.use_keras_mha g))"
  "map_of (GastGenerator_get_config g) ''use_spectral_norm'' = Some (VBool (GastGenerator_attrs.use_spectral_norm g))"
  "map_of (GastGenerator_get_config g) ''activation'' = Some (VStr (GastGenerator_attrs.activation g))"
  "map_of (GastGenerator_get_config g) ''cond_dim'' = Some (VInt (cond_dim g))"
  "map_of (GastGenerator_get_config g) ''ff_dim'' = Some (int_or_none (GastGenerator_attrs.ff_dim g))"
  "map_of (GastGenerator_get_config g) ''mlp_dim'' = Some (int_or_none (mlp_dim g))"
  "map_of (GastGenerator_get_config g) ''pre_layernorm'' = Some (VBool (GastGenerator_attrs.pre_layernorm g))"
  "map_of (GastGenerator_get_config g) ''include_class'' = Some (VBool (include_class g))"
  "map_of (GastGenerator_get_config g) ''num_classes'' = Some (int_or_none (GastGenerator_attrs.num_classes g))"
  "map_of (GastGenerator_get_config g) ''class_dim'' = Some (VInt (class_dim g))"
  by (simp_all add: GastGenerator_get_config_def CustomModel_get_config_def dict_update_def)

lemma config_keys:
  "map fst (GastGenerator_get_config g) =
     [''max_set_size'', ''noise_dim'', ''embed_dim'', ''latent_dim'', ''stack'', ''num_heads'',
      ''num_anchors'', ''use_keras_mha'', ''use_spectral_norm'', ''activation'', ''cond_dim'',
      ''ff_dim'', ''mlp_dim'', ''pre_layernorm'', ''include_class'', ''num_classes'',
      ''class_dim'']"
  by (simp add: GastGenerator_get_config_def CustomModel_get_config_def dict_update_def)

lemma default_none_int_or_none:
  "map_of kw k = Some (int_or_none v) \<Longrightarrow> default_none kw k = Inr v"
  by (cases v) (simp_all add: default_none_def int_or_none_def)

lemma GastGenerator_new_get_config:
  "GastGenerator_new (GastGenerator_get_config g) =
     GastGenerator_init (max_set_size g) (noise_dim g) (GastGenerator_attrs.embed_dim g)
       (GastGenerator_attrs.latent_dim g) (GastGenerator_attrs.stack g)
       (GastGenerator_attrs.num_heads g) (GastGenerator_attrs.num_anchors g)
       (GastGenerator_attrs.use_keras_mha g) (GastGenerator_attrs.use_spectral_norm g)
       (GastGenerator_attrs.activation g) (Some (cond_dim g)) (GastGenerator_attrs.ff_dim g)
       (mlp_dim g) (GastGenerator_attrs.pre_layernorm g) (include_class g)
       (GastGenerator_attrs.num_classes g) (Some (class_dim g))"
proof -
  have "default_none (GastGenerator_get_config g) ''cond_dim'' = Inr (Some (cond_dim g))"
    "default_none (GastGenerator_get_config g) ''class_dim'' = Inr (Some (class_dim g))"
    by (simp_all add: default_none_def config_lookup)
  then show ?thesis
    unfolding GastGenerator_new_def
    by (simp add: bind_result_def required_int_def default_bool_def default_str_def
        config_lookup default_none_int_or_none[OF config_lookup(12)]
        default_none_int_or_none[OF config_lookup(13)]
        default_none_int_or_none[OF config_lookup(16)])
qed

lemma GastGenerator_round_trip:
  assumes "GastGenerator_new kw = Inr g"
  shows "GastGenerator_from_config (GastGenerator_get_config g) = Inr g"
proof -
  from assms obtain ms nd ed ld st nh na mha usn act cd ff mlp pln ic nc cdim where
    init: "GastGenerator_init ms nd ed ld st nh na mha usn act cd ff mlp pln ic nc cdim = Inr g"
    by (rule GastGenerator_new_Inr)
  note I = GastGenerator_init_Inr[OF init]
  have mlp: "(case mlp_dim g of Some m \<Rightarrow> Some m | None \<Rightarrow> GastGenerator_attrs.ff_dim g) = mlp_dim g"
    unfolding I(13) I(14) by (cases mlp; cases ff) simp_all
  define self where "self = \<lparr>max_set_size = max_set_size g, noise_dim = noise_dim g,
      embed_dim = GastGenerator_attrs.embed_dim g, latent_dim = GastGenerator_attrs.latent_dim g,
      stack = GastGenerator_attrs.stack g, num_heads = GastGenerator_attrs.num_heads g,
      num_anchors = GastGenerator_attrs.num_anchors g,
      use_keras_mha = GastGenerator_attrs.use_keras_mha g,
      use_spectral_norm = GastGenerator_attrs.use_spectral_norm g,
      activation = GastGenerator_attrs.activation g, cond_dim = cond_dim g,
      ff_dim = GastGenerator_attrs.ff_dim g, mlp_dim = mlp_dim g,
      pre_layernorm = GastGenerator_attrs.pre_layernorm g, include_class = include_class g,
      num_classes = GastGenerator_attrs.num_classes g, class_dim = class_dim g\<rparr>"
  have tr: "GastGenerator_attrs.truncate self = GastGenerator_attrs.truncate g"
    by (simp add: self_def GastGenerator_attrs.truncate_def)
  have bm: "GastGenerator_build_model self = Inr (GastGenerator.model g)"
    unfolding GastGenerator_build_model_cong[OF tr] by (rule I(19))
  have ext: "GastGenerator_attrs.extend self \<lparr>GastGenerator.model = GastGenerator.model g\<rparr> = g"
    by (cases g) (simp add: self_def GastGenerator_attrs.extend_def)
  show ?thesis
    unfolding GastGenerator_from_config_def GastGenerator_new_get_config
    unfolding GastGenerator_init_def Let_def
    by (simp add: mlp self_def[symmetric] bm ext)
qed

text \<open>
  Claim C8, with the number of recorded values as the code has it. For every generator
  \<open>g\<close> that was constructed, \<^verbatim>\<open>from_config(g.get_config())\<close> succeeds and yields a
  generator with the same configuration; \<^verbatim>\<open>get_config\<close> records seventeen values, under
  the keys listed.
\<close>

theorem config_round_trip:
  assumes "GastGenerator_new kw = Inr g"
  shows "\<exists>g'. GastGenerator_from_config (GastGenerator_get_config g) = Inr g' \<and>
     GastGenerator_get_config g' = GastGenerator_get_config g \<and>
     map fst (GastGenerator_get_config g) =
       [''max_set_size'', ''noise_dim'', ''embed_dim'', ''latent_dim'', ''stack'', ''num_heads'',
        ''num_anchors'', ''use_keras_mha'', ''use_spectral_norm'', ''activation'', ''cond_dim'',
        ''ff_dim'', ''mlp_dim'', ''pre_layernorm'', ''include_class'', ''num_classes'',
        ''class_dim''] \<and>
     length (GastGenerator_get_config g) = 17"
proof -
  have "length (GastGenerator_get_config g) = length (map fst (GastGenerator_get_config g))"
    by simp
  also have "\<dots> = 17" unfolding config_keys by simp
  finally show ?thesis
    using GastGenerator_round_trip[OF assms] config_keys[of g] by simp
qed

lemma example_generator_builds:
  obtains g where "GastGenerator_new example_generator_call = Inr g"
    and "GastGenerator_attrs.stack g = 2" and "GastGenerator_attrs.num_anchors g = 5"
    and "noise_dim g = 16" and "GastGenerator_attrs.latent_dim g = 32"
    and "GastGenerator_attrs.use_spectral_norm g = True"
proof -
  have "GastGenerator_new example_generator_call =
      GastGenerator_init 8 16 32 32 2 4 5 False True ''relu'' None None None True False None None"
    by (simp add: example_generator_call_def GastGenerator_new_def bind_result_def
        required_int_def default_bool_def default_str_def default_none_def)
  moreover obtain g where g: "GastGenerator_init 8 16 32 32 2 4 5 False True ''relu'' None None None
      True False None None = Inr g"
    unfolding GastGenerator_init_def Let_def GastGenerator_build_model_eq by simp
  ultimately show ?thesis using that GastGenerator_init_Inr[OF g] by simp
qed

lemma example_discriminator_builds:
  obtains d where "GastDiscriminator_new example_discriminator_call = Inr d"
    and "GastDiscriminator_attrs.stack d = 2" and "GastDiscriminator_attrs.num_anchors d = 5"
proof -
  have "GastDiscriminator_new example_discriminator_call =
      Inr (GastDiscriminator_init 32 32 2 4 5 False True ''relu'' None True 1)"
    by (simp add: example_discriminator_call_def GastDiscriminator_new_def bind_result_def
        required_int_def default_bool_def default_str_def default_none_def default_int_def)
  then show ?thesis using that GastDiscriminator_init_layers(2,4)[OF refl] by simp
qed

text \<open>
  The theorem at the two example calls, where the stack is 2: three layers with spectral
  normalisation in the generator, five in the discriminator.
\<close>

theorem spectral_norm_default_witness:
  "(case GastGenerator_new example_generator_call of
      Inr g \<Rightarrow>
        list_all (\<lambda>l. spectral_norm_of l = None \<or> spectral_norm_of l = Some True)
          (layers (GastGenerator.model g)) \<and>
        length (filter (\<lambda>l. spectral_norm_of l = Some True) (layers (GastGenerator.model g))) = 3
    | Inl e \<Rightarrow> False) \<and>
   (case GastDiscriminator_new example_discriminator_call of
      Inr d \<Rightarrow>
        list_all (\<lambda>l. spectral_norm_of l = None \<or> spectral_norm_of l = Some True)
          (layers (GastDiscriminator.model d)) \<and>
        length (filter (\<lambda>l. spectral_norm_of l = Some True) (layers (GastDiscriminator.model d))) = 5
    | Inl e \<Rightarrow> False)"
proof -
  obtain g where g: "GastGenerator_new example_generator_call = Inr g"
    and sg: "GastGenerator_attrs.stack g = 2"
    by (rule example_generator_builds)
  obtain d where d: "GastDiscriminator_new example_discriminator_call = Inr d"
    and sd: "GastDiscriminator_attrs.stack d = 2"
    by (rule example_discriminator_builds)
  have dg: "map_of example_generator_call ''use_spectral_norm'' = None"
    by (simp add: example_generator_call_def)
  have dd: "map_of example_discriminator_call ''use_spectral_norm'' = None"
    by (simp add: example_discriminator_call_def)
  from spectral_norm_default[of example_generator_call g example_discriminator_call d]
    g d dg dd sg sd
  show ?thesis by (auto simp: list_all_iff)
qed

text \<open>
  The theorem at the two example calls: two blocks each, all with 5 anchors.
\<close>

theorem anchors_fixed_witness:
  "(case GastGenerator_new example_generator_call of
      Inr g \<Rightarrow>
        length (filter is_csab (layers (GastGenerator.model g))) = 2 \<and>
        map anchors_of (filter is_csab (layers (GastGenerator.model g))) = [Some 5, Some 5]
    | Inl e \<Rightarrow> False) \<and>
   (case GastDiscriminator_new example_discriminator_call of
      Inr d \<Rightarrow>
        length (filter is_isab (layers (GastDiscriminator.model d))) = 2 \<and>
        map anchors_of (filter is_isab (layers (GastDiscriminator.model d))) = [Some 5, Some 5]
    | Inl e \<Rightarrow> False)"
proof -
  obtain g where g: "GastGenerator_new example_generator_call = Inr g"
    and sg: "GastGenerator_attrs.stack g = 2" and ag: "GastGenerator_attrs.num_anchors g = 5"
    by (rule example_generator_builds)
  obtain d where d: "GastDiscriminator_new example_discriminator_call = Inr d"
    and sd: "GastDiscriminator_attrs.stack d = 2" and ad: "GastDiscriminator_attrs.num_anchors d = 5"
    by (rule example_discriminator_builds)
  have two: "length xs = 2 \<Longrightarrow> \<forall>x \<in> set xs. f x = c \<Longrightarrow> map f xs = [c, c]" for xs :: "layer list"
    and f :: "layer \<Rightarrow> int option" and c
    by (cases xs; cases "tl xs") auto
  from anchors_fixed[of example_generator_call g example_discriminator_call d] g d sg sd ag ad
  have "length (filter is_csab (layers (GastGenerator.model g))) = 2"
    "\<forall>l \<in> set (filter is_csab (layers (GastGenerator.model g))). anchors_of l = Some 5"
    "length (filter is_isab (layers (GastDiscriminator.model d))) = 2"
    "\<forall>l \<in> set (filter is_isab (layers (GastDiscriminator.model d))). anchors_of l = Some 5"
    by auto
  then show ?thesis using g d by (simp add: two)
qed


text \<open>
  The theorem at the example call.
\<close>

theorem generator_model_wiring_witness:
  "(case GastGenerator_new example_generator_call of
      Inr g \<Rightarrow>
        include_class g = False \<and>
        inputs (GastGenerator.model g) =
          [Input [Some 16] float32 (Some ''noise''), Input [Some 1] int32 (Some ''cardinality'')] \<and>
        outputs (GastGenerator.model g) = Apply (spectral_dense 32 True) [conditioned_set g 2]
    | Inl e \<Rightarrow> False)"
proof -
  obtain g where g: "GastGenerator_new example_generator_call = Inr g"
    and f: "GastGenerator_attrs.stack g = 2" "noise_dim g = 16"
      "GastGenerator_attrs.latent_dim g = 32" "GastGenerator_attrs.use_spectral_norm g = True"
    by (rule example_generator_builds)
  have "nat 2 = 2" by simp
  with generator_model_wiring[OF g] f g show ?thesis by simp
qed

text \<open>
  The theorem at the example call; there the round trip gives the generator back.
\<close>

theorem config_round_trip_witness:
  "(case GastGenerator_new example_generator_call of
      Inr g \<Rightarrow>
        GastGenerator_from_config (GastGenerator_get_config g) = Inr g \<and>
        length (GastGenerator_get_config g) = 17
    | Inl e \<Rightarrow> False)"
proof -
  obtain g where g: "GastGenerator_new example_generator_call = Inr g"
    by (rule example_generator_builds)
  from config_round_trip[OF g] obtain g' where
    g': "GastGenerator_from_config (GastGenerator_get_config g) = Inr g'"
    and len: "length (GastGenerator_get_config g) = 17"
    by blast
  from GastGenerator_round_trip[OF g] g' have "g' = g" by simp
  with g g' len show ?thesis by simp
qed

text \<open>
  The configuration of the example generator holds seventeen values, not fourteen.
\<close>

theorem config_fourteen_counterexample:
  "(case GastGenerator_new example_generator_call of
      Inr g \<Rightarrow> length (GastGenerator_get_config g) | Inl e \<Rightarrow> 0) = 17 \<and>
   (case GastGenerator_new example_generator_call of
      Inr g \<Rightarrow> length (GastGenerator_get_config g) | Inl e \<Rightarrow> 0) \<noteq> 14"
proof -
  obtain g where g: "GastGenerator_new example_generator_call = Inr g"
    by (rule example_generator_builds)
  have "length (GastGenerator_get_config g) = length (map fst (GastGenerator_get_config g))"
    by simp
  also have "\<dots> = 17" unfolding config_keys by simp
  finally show ?thesis using g by simp
qed

section \<open>Properties of the float model\<close>

lemma pow2_pos: "0 < pow2 e"
  by (simp add: pow2_def)

lemma bitlen_exp_bound:
  assumes M: "0 < M" and small: "of_int M * pow2 e < (2::rat) ^ 53"
  shows "bitlen M + e \<le> 53"
proof (rule ccontr)
  assume "\<not> bitlen M + e \<le> 53"
  then have big: "54 \<le> bitlen M + e" by simp
  define b where "b = nat (bitlen M - 1)"
  have bM: "(2::int) ^ b \<le> M" unfolding b_def using bitlen_bounds[OF M] by simp
  have bpos: "1 \<le> bitlen M" using M bitlen_eq_zero_iff[of M] bitlen_nonneg[of M] by linarith
  have bint: "int b = bitlen M - 1" unfolding b_def using bpos by simp
  have bMr: "(2::rat) ^ b \<le> of_int M"
  proof -
    have "(of_int ((2::int) ^ b) :: rat) \<le> of_int M" using bM by (simp only: of_int_le_iff)
    then show ?thesis by simp
  qed
  show False
  proof (cases "0 \<le> e")
    case True
    have "nat e + b \<ge> 53" using big bint True by linarith
    then have "(2::rat) ^ 53 \<le> 2 ^ (b + nat e)" by (intro power_increasing) (simp_all add: add.commute)
    also have "\<dots> = 2 ^ b * 2 ^ nat e" by (simp add: power_add)
    also have "\<dots> \<le> of_int M * 2 ^ nat e" using bMr by (intro mult_right_mono) simp_all
    finally show False using small True by (simp add: pow2_def)
  next
    case False
    then have le: "nat (- e) \<le> b" using big bint by linarith
    have "53 \<le> b - nat (- e)" using big bint False by linarith
    then have "(2::rat) ^ 53 \<le> 2 ^ (b - nat (- e))" by (intro power_increasing) simp_all
    also have "\<dots> = 2 ^ b / 2 ^ nat (- e)" using le by (simp add: power_diff)
    also have "\<dots> \<le> of_int M / 2 ^ nat (- e)" using bMr by (intro divide_right_mono) simp_all
    finally show False using small False by (simp add: pow2_def)
  qed
qed

lemma round_half_even_bounds:
  assumes "0 \<le> a"
  shows "a div 2 ^ s \<le> round_half_even a s" and "round_half_even a s \<le> a div 2 ^ s + 1"
    and "a mod 2 ^ s = 0 \<Longrightarrow> round_half_even a s = a div 2 ^ s"
  by (auto simp: round_half_even_def Let_def)

lemma floor_le_ceiling_rat: "\<lfloor>x::rat\<rfloor> \<le> \<lceil>x\<rceil>"
  by (meson ceiling_mono floor_le_ceiling order_refl)

lemma index_exact:
  assumes M: "0 \<le> M"
  shows "\<exists>k. py_int (Finite M e) = Inr k \<and> \<lfloor>of_int M * pow2 e\<rfloor> = k"
proof (cases "0 \<le> e")
  case True
  have "of_int M * pow2 e = (of_int (M * 2 ^ nat e) :: rat)" using True by (simp add: pow2_def)
  then have "\<lfloor>of_int M * pow2 e\<rfloor> = M * 2 ^ nat e" by (simp only: floor_of_int)
  then show ?thesis using True by (simp add: py_int_def)
next
  case False
  have "of_int M * pow2 e = (of_int M / of_int (2 ^ nat (- e)) :: rat)"
    using False by (simp add: pow2_def)
  then have "\<lfloor>of_int M * pow2 e\<rfloor> = M div 2 ^ nat (- e)"
    by (simp only: floor_divide_of_int_eq)
  then show ?thesis using False M by (simp add: py_int_def)
qed

lemma index_rounded:
  assumes M: "0 < M" and s: "0 < s" and j: "e = - int (s + j)"
  shows "\<exists>k. py_int (Finite (round_half_even M s) (e + int s)) = Inr k \<and>
     \<lfloor>of_int M * pow2 e\<rfloor> \<le> k \<and> k \<le> \<lceil>of_int M * pow2 e\<rceil>"
proof -
  define q where "q = M div 2 ^ s"
  define a' where "a' = round_half_even M s"
  define D where "D = (2::int) ^ j"
  define x where "x = (of_int M * pow2 e :: rat)"
  have Dpos: "0 < D" by (simp add: D_def)
  have qa: "q \<le> a'" "a' \<le> q + 1" and exact: "M mod 2 ^ s = 0 \<Longrightarrow> a' = q"
    unfolding q_def a'_def using round_half_even_bounds[of M s] M by simp_all
  have e': "e + int s = - int j" using j by simp
  have k: "py_int (Finite a' (e + int s)) = Inr (a' div D)"
  proof (cases "j = 0")
    case True
    then show ?thesis by (simp add: py_int_def e' D_def)
  next
    case False
    moreover have "0 \<le> q" unfolding q_def using M by (simp add: pos_imp_zdiv_nonneg_iff)
    then have "0 \<le> a'" using qa by linarith
    ultimately show ?thesis by (simp add: py_int_def e' D_def)
  qed
  have x: "x = of_int M / of_int (2 ^ s * D)"
  proof -
    have "\<not> 0 \<le> e" using j s by simp
    moreover have "nat (- e) = s + j" using j by simp
    ultimately show ?thesis unfolding x_def D_def by (simp add: pow2_def power_add)
  qed
  have fl: "\<lfloor>x\<rfloor> = q div D"
    unfolding x floor_divide_of_int_eq q_def using Dpos by (intro zdiv_zmult2_eq) simp
  have lower: "\<lfloor>x\<rfloor> \<le> a' div D"
    unfolding fl using qa(1) Dpos by (simp add: zdiv_mono1)
  have upper: "a' div D \<le> \<lceil>x\<rceil>"
  proof (cases "a' = q")
    case True
    then show ?thesis using fl floor_le_ceiling_rat[of x] by simp
  next
    case False
    have r: "M mod 2 ^ s \<noteq> 0"
    proof
      assume "M mod 2 ^ s = 0"
      then have "a' = q" by (rule exact)
      with False show False by simp
    qed
    have a'eq: "a' = q + 1" using False qa by linarith
    have "0 \<le> M mod 2 ^ s" by simp
    with r have "M mod 2 ^ s > 0" by linarith
    moreover have "M = q * 2 ^ s + M mod 2 ^ s" unfolding q_def
      by (rule div_mult_mod_eq[symmetric])
    ultimately have "q * 2 ^ s < M" by linarith
    then have "(of_int (q * 2 ^ s) :: rat) < of_int M" by (simp only: of_int_less_iff)
    then have "(of_int q :: rat) * 2 ^ s < of_int M" by simp
    then have qx: "(of_int q :: rat) / of_int D < x"
      unfolding x using Dpos by (simp add: field_simps)
    have "(q + 1) div D \<le> (q + D) div D" using Dpos by (intro zdiv_mono1) simp_all
    also have "\<dots> = q div D + 1" using Dpos by simp
    finally have "(q + 1) div D \<le> q div D + 1" .
    then have "of_int ((q + 1) div D) - 1 \<le> (of_int (q div D) :: rat)" by linarith
    also have "\<dots> \<le> of_int q / of_int D"
      using floor_divide_of_int_eq[of q D, where ?'a = rat] of_int_floor_le[of "of_int q / of_int D :: rat"]
      by simp
    also have "\<dots> < x" by (rule qx)
    finally show ?thesis unfolding a'eq by (simp add: le_ceiling_iff)
  qed
  show ?thesis
    using k lower upper unfolding a'_def x_def by blast
qed

lemma int_div_less:
  assumes "0 < (b::int)" and "a < b * c"
  shows "a div b < c"
proof (rule ccontr)
  assume "\<not> a div b < c"
  then have "c \<le> a div b" by simp
  then have "b * c \<le> b * (a div b)" using assms(1) by (simp add: mult_left_mono)
  moreover have "0 \<le> a mod b" using assms(1) by simp
  moreover have "b * (a div b) + a mod b = a" by (rule mult_div_mod_eq)
  ultimately show False using assms(2) by linarith
qed

lemma float_of_int_small:
  assumes "n < 2 ^ 53"
  shows "float_of_int (int n) = Inr (Finite (int n) 0)"
proof -
  have "bitlen (int n) \<le> 53"
    using assms by (simp add: bitlen_le_iff_power flip: of_nat_less_iff)
  then have s: "max (bitlen (int n) - 53) (- 1074 - 0) \<le> 0" by simp
  show ?thesis
  proof (cases "n = 0")
    case True
    then show ?thesis by (simp add: float_of_int_def round_binary64_def)
  next
    case False
    with s \<open>bitlen (int n) \<le> 53\<close> show ?thesis
      by (simp add: float_of_int_def round_binary64_def Let_def)
  qed
qed

lemma round_product:
  assumes M: "0 \<le> M" and e: "- 1074 \<le> e" and small: "of_int M * pow2 e < (2::rat) ^ 53"
  shows "\<exists>a' e'. round_binary64 M e = Finite a' e' \<and>
     (\<exists>k. py_int (Finite a' e') = Inr k \<and>
       \<lfloor>of_int M * pow2 e\<rfloor> \<le> k \<and> k \<le> \<lceil>of_int M * pow2 e\<rceil>)"
proof -
  consider "M = 0" | "0 < M" "bitlen M \<le> 53" | "0 < M" "53 < bitlen M" using M by linarith
  then show ?thesis
  proof cases
    case 1
    have "round_binary64 M e = Finite 0 0"
      using 1 e by (simp add: round_binary64_def Let_def)
    moreover have "py_int (Finite 0 0) = Inr 0" by (simp add: py_int_def)
    ultimately show ?thesis using 1 by simp
  next
    case 2
    have le: "bitlen M + e \<le> 53" by (rule bitlen_exp_bound[OF 2(1) small])
    have "round_binary64 M e = Finite M e"
      using 2 e le by (simp add: round_binary64_def Let_def)
    moreover from index_exact[OF M, of e] obtain k where
      "py_int (Finite M e) = Inr k" "\<lfloor>of_int M * pow2 e\<rfloor> = k" by blast
    ultimately show ?thesis using floor_le_ceiling_rat[of "of_int M * pow2 e"] by auto
  next
    case 3
    define s where "s = nat (bitlen M - 53)"
    have spos: "0 < s" and sint: "int s = bitlen M - 53" using 3 by (simp_all add: s_def)
    have le: "bitlen M + e \<le> 53" by (rule bitlen_exp_bound[OF 3(1) small])
    define j where "j = nat (- (e + int s))"
    have ej: "e = - int (s + j)" unfolding j_def using le sint by simp
    have smax: "max (bitlen M - 53) (- 1074 - e) = int s" using e 3 sint by simp
    define a' where "a' = round_half_even M s"
    have lo: "(2::int) ^ nat (bitlen M - 1) \<le> M" and hi: "M < 2 ^ nat (bitlen M)"
      using bitlen_bounds[OF 3(1)] by simp_all
    have "nat (bitlen M - 1) = s + 52" "nat (bitlen M) = s + 53" using sint 3 by simp_all
    with lo hi have lo': "(2::int) ^ s * 2 ^ 52 \<le> M" and hi': "M < 2 ^ s * 2 ^ 53"
      by (simp_all add: power_add)
    have q1: "2 ^ 52 \<le> M div 2 ^ s"
    proof -
      have "(2::int) ^ 52 = (2 ^ s * 2 ^ 52) div 2 ^ s" by simp
      also have "\<dots> \<le> M div 2 ^ s" using lo' by (intro zdiv_mono1) simp_all
      finally show ?thesis .
    qed
    have q2: "M div 2 ^ s < 2 ^ 53"
      using hi' by (intro int_div_less) simp_all
    have a1: "2 ^ 52 \<le> a'" and a2: "a' \<le> 2 ^ 53"
      using round_half_even_bounds(1,2)[OF M, of s] q1 q2 unfolding a'_def by linarith+
    have "a' < 2 ^ nat 54" using a2 by simp
    then have "bitlen a' \<le> 54" by (simp add: bitlen_le_iff_power)
    moreover have "e + int s \<le> 0" using le sint by simp
    ultimately have nov: "\<not> 1024 < bitlen a' + (e + int s)" by linarith
    have "round_binary64 M e = Finite a' (e + int s)"
      unfolding round_binary64_def Let_def using 3(1) smax spos a1 nov
      by (simp add: a'_def)
    moreover from index_rounded[OF 3(1) spos ej] obtain k where
      "py_int (Finite a' (e + int s)) = Inr k" "\<lfloor>of_int M * pow2 e\<rfloor> \<le> k"
      "k \<le> \<lceil>of_int M * pow2 e\<rceil>"
      unfolding a'_def by blast
    ultimately show ?thesis by blast
  qed
qed

lemma split_index_bounds:
  assumes b64: "is_binary64 (Finite m e)" and m: "0 \<le> m"
    and one: "float_value (Finite m e) \<le> 1" and n: "n < 2 ^ 53"
  shows "\<exists>k. split_index_of n (Finite m e) = Inr k \<and>
     \<lfloor>of_nat n * float_value (Finite m e)\<rfloor> \<le> k \<and>
     k \<le> \<lceil>of_nat n * float_value (Finite m e)\<rceil> \<and> 0 \<le> k \<and> k \<le> int n"
proof -
  define x where "x = (of_nat n * float_value (Finite m e) :: rat)"
  have e: "- 1074 \<le> e" using b64 by (simp add: is_binary64_def)
  have t0: "0 \<le> float_value (Finite m e)" using m pow2_pos[of e] by (simp add: float_value_def)
  have x0: "0 \<le> x" unfolding x_def using t0 by simp
  have xn: "x \<le> of_nat n" unfolding x_def using one by (simp add: mult_left_le)
  have "(of_nat n :: rat) < of_nat (2 ^ 53)" using n by (simp only: of_nat_less_iff)
  then have "(of_nat n :: rat) < 2 ^ 53" by simp
  with xn have small: "x < 2 ^ 53" by linarith
  have xM: "x = of_int (int n * m) * pow2 e" unfolding x_def by (simp add: float_value_def)
  have M: "0 \<le> int n * m" using m by simp
  from round_product[OF M e small[unfolded xM]] obtain a' e' k where
    r: "round_binary64 (int n * m) e = Finite a' e'" and k: "py_int (Finite a' e') = Inr k"
    and lo: "\<lfloor>x\<rfloor> \<le> k" and hi: "k \<le> \<lceil>x\<rceil>"
    unfolding xM by blast
  have "split_index_of n (Finite m e) = Inr k"
    by (simp add: split_index_of_def int_times_float_def float_of_int_small[OF n] r k)
  moreover have "0 \<le> k" using lo x0 by (meson order_trans zero_le_floor)
  moreover have "k \<le> int n"
  proof -
    have "\<lceil>x\<rceil> \<le> \<lceil>(of_nat n :: rat)\<rceil>" using xn by (rule ceiling_mono)
    then show ?thesis using hi by simp
  qed
  ultimately show ?thesis using lo hi unfolding x_def by blast
qed

section \<open>Properties of the dataset-preparation script\<close>

lemma slices_nonneg:
  assumes "0 \<le> k"
  shows "slice_to xs k = take (nat k) xs" and "slice_from xs k = drop (nat k) xs"
    and "slice_to xs k @ slice_from xs k = xs"
  using assms by (simp_all add: slice_to_def slice_from_def)

lemma rng_shuffle_mset:
  assumes "shuffles env"
  shows "mset (fst (rng_shuffle env rng xs)) = mset xs"
proof -
  obtain order rng' where d: "draw_order env rng (length xs) = (order, rng')"
    by (cases "draw_order env rng (length xs)")
  from assms have "mset order = mset [0 ..< length xs]"
    unfolding shuffles_def using d by (metis fst_conv)
  then have "mset (map (\<lambda>i. xs ! i) order) = mset (map (\<lambda>i. xs ! i) [0 ..< length xs])"
    by (simp only: mset_map)
  then show ?thesis by (simp add: rng_shuffle_def d map_nth)
qed

lemma successive_shuffles_mset:
  assumes "shuffles env"
  shows "\<forall>xs \<in> set (fst (successive_shuffles env rng es n)). mset xs = mset es"
proof (induction n arbitrary: rng es)
  case 0
  then show ?case by simp
next
  case (Suc n)
  obtain es' rng' where sh: "rng_shuffle env rng es = (es', rng')"
    by (cases "rng_shuffle env rng es")
  obtain rest rng'' where r: "successive_shuffles env rng' es' n = (rest, rng'')"
    by (cases "successive_shuffles env rng' es' n")
  have es': "mset es' = mset es" using rng_shuffle_mset[OF assms, of rng es] sh by simp
  from Suc[of rng' es'] r have "\<forall>xs \<in> set rest. mset xs = mset es'" by simp
  with es' show ?case by (simp add: sh r)
qed

lemma successive_shuffles_length:
  "length (fst (successive_shuffles env rng es n)) = n"
proof (induction n arbitrary: rng es)
  case 0
  then show ?case by simp
next
  case (Suc n)
  obtain es' rng' where sh: "rng_shuffle env rng es = (es', rng')"
    by (cases "rng_shuffle env rng es")
  obtain rest rng'' where r: "successive_shuffles env rng' es' n = (rest, rng'')"
    by (cases "successive_shuffles env rng' es' n")
  from Suc[of rng' es'] r show ?case by (simp add: sh r)
qed

lemma fasta_split_step:
  "fasta_split env config fn k out (es, files, effects, rng) i =
     (fst (rng_shuffle env rng es),
      files @ (if output_fasta_fastq config
               then snd (output_fasta_file config fn (fst (rng_shuffle env rng es)) k
                           (split_path config out i) :: 'q effect list \<times> path list)
               else []),
      effects @ fasta_split_effects config fn k out i (fst (rng_shuffle env rng es)),
      snd (rng_shuffle env rng es))"
  for env :: "('q, 'r) env" and effects :: "'q effect list"
  by (cases "rng_shuffle env rng es")
     (simp add: fasta_split_def fasta_split_effects_def split_path_def Let_def)

lemma fasta_split_loop:
  fixes env :: "('q, 'r) env" and effects :: "'q effect list"
  shows "\<exists>es' files'.
     foldl (fasta_split env config fn k out) (es, files, effects, rng) [a ..< a + n] =
       (es', files',
        effects @ concat (map (\<lambda>(i, xs). fasta_split_effects config fn k out i xs)
                           (zip [a ..< a + n] (fst (successive_shuffles env rng es n)))),
        snd (successive_shuffles env rng es n))"
proof (induction n arbitrary: a es files effects rng)
  case 0
  then show ?case by simp
next
  case (Suc n)
  obtain es1 rng1 where sh: "rng_shuffle env rng es = (es1, rng1)"
    by (cases "rng_shuffle env rng es")
  obtain rest rng2 where r: "successive_shuffles env rng1 es1 n = (rest, rng2)"
    by (cases "successive_shuffles env rng1 es1 n")
  have upt: "[a ..< a + Suc n] = a # [Suc a ..< Suc a + n]"
    by (simp add: upt_conv_Cons)
  from Suc[of es1 _ "effects @ fasta_split_effects config fn k out a es1" rng1 "Suc a"]
  show ?case
    unfolding upt by (simp add: fasta_split_step sh r)
qed

lemma fastq_split_step:
  "fastq_split env config fn k out (es, files, effects, rng) i =
     (fst (rng_shuffle env rng es),
      files @ (if output_fasta_fastq config
               then snd (output_fastq_file config fn (fst (rng_shuffle env rng es)) k
                           (split_path config out i) :: 'q effect list \<times> path list)
               else []),
      effects @ fastq_split_effects config fn k out i (fst (rng_shuffle env rng es)),
      snd (rng_shuffle env rng es))"
  for env :: "('q, 'r) env" and effects :: "'q effect list"
  by (cases "rng_shuffle env rng es")
     (simp add: fastq_split_def fastq_split_effects_def split_path_def Let_def)

lemma fastq_split_loop:
  fixes env :: "('q, 'r) env" and effects :: "'q effect list"
  shows "\<exists>es' files'.
     foldl (fastq_split env config fn k out) (es, files, effects, rng) [a ..< a + n] =
       (es', files',
        effects @ concat (map (\<lambda>(i, xs). fastq_split_effects config fn k out i xs)
                           (zip [a ..< a + n] (fst (successive_shuffles env rng es n)))),
        snd (successive_shuffles env rng es n))"
proof (induction n arbitrary: a es files effects rng)
  case 0
  then show ?case by simp
next
  case (Suc n)
  obtain es1 rng1 where sh: "rng_shuffle env rng es = (es1, rng1)"
    by (cases "rng_shuffle env rng es")
  obtain rest rng2 where r: "successive_shuffles env rng1 es1 n = (rest, rng2)"
    by (cases "successive_shuffles env rng1 es1 n")
  have upt: "[a ..< a + Suc n] = a # [Suc a ..< Suc a + n]"
    by (simp add: upt_conv_Cons)
  from Suc[of es1 _ "effects @ fastq_split_effects config fn k out a es1" rng1 "Suc a"]
  show ?case
    unfolding upt by (simp add: fastq_split_step sh r)
qed

lemma process_fasta_file_eq:
  fixes env :: "('q, 'r) env" and effects :: "'q effect list"
  assumes "split_index_of (length (fasta_entries env config file)) (test_split config) = Inr k"
  shows "\<exists>files'. process_fasta_file env config out file (files, effects, rng) =
     (Inr files',
      effects @ concat (map (\<lambda>(i, xs).
          fasta_split_effects config (rstrip (path_name file) ''.gz'') k out i xs)
        (zip [0 ..< nat (num_splits config)]
          (fst (successive_shuffles env rng (fasta_entries env config file)
                 (nat (num_splits config)))))),
      snd (successive_shuffles env rng (fasta_entries env config file)
             (nat (num_splits config))))"
proof -
  from fasta_split_loop[of env config "rstrip (path_name file) ''.gz''" k out
      "fasta_entries env config file" files effects rng 0 "nat (num_splits config)"]
  obtain es' files' where
    "foldl (fasta_split env config (rstrip (path_name file) ''.gz'') k out)
        (fasta_entries env config file, files, effects, rng) [0 ..< nat (num_splits config)] =
       (es', files',
        effects @ concat (map (\<lambda>(i, xs).
            fasta_split_effects config (rstrip (path_name file) ''.gz'') k out i xs)
          (zip [0 ..< nat (num_splits config)]
            (fst (successive_shuffles env rng (fasta_entries env config file)
                   (nat (num_splits config)))))),
        snd (successive_shuffles env rng (fasta_entries env config file)
               (nat (num_splits config))))"
    by auto
  then show ?thesis
    unfolding process_fasta_file_def Let_def by (simp add: assms)
qed

lemma process_fastq_file_eq:
  fixes env :: "('q, 'r) env" and effects :: "'q effect list"
  assumes "split_index_of (length (read_fastq env file)) (test_split config) = Inr k"
  shows "\<exists>files'. process_fastq_file env config out file (files, effects, rng) =
     (Inr files',
      effects @ concat (map (\<lambda>(i, xs).
          fastq_split_effects config (rstrip (path_name file) ''.gz'') k out i xs)
        (zip [0 ..< nat (num_splits config)]
          (fst (successive_shuffles env rng (read_fastq env file)
                 (nat (num_splits config)))))),
      snd (successive_shuffles env rng (read_fastq env file)
             (nat (num_splits config))))"
proof -
  from fastq_split_loop[of env config "rstrip (path_name file) ''.gz''" k out
      "read_fastq env file" files effects rng 0 "nat (num_splits config)"]
  obtain es' files' where
    "foldl (fastq_split env config (rstrip (path_name file) ''.gz'') k out)
        (read_fastq env file, files, effects, rng) [0 ..< nat (num_splits config)] =
       (es', files',
        effects @ concat (map (\<lambda>(i, xs).
            fastq_split_effects config (rstrip (path_name file) ''.gz'') k out i xs)
          (zip [0 ..< nat (num_splits config)]
            (fst (successive_shuffles env rng (read_fastq env file)
                   (nat (num_splits config)))))),
        snd (successive_shuffles env rng (read_fastq env file)
               (nat (num_splits config))))"
    by auto
  then show ?thesis
    unfolding process_fastq_file_def Let_def by (simp add: assms)
qed

lemma fasta_entries_length: "length (fasta_entries env config file) = length (read_fasta env file)"
  by (simp add: fasta_entries_def Let_def)

lemma split_of_shuffles:
  assumes sh: "shuffles env" and k: "0 \<le> k" "k \<le> int (length es)"
  shows "\<forall>xs \<in> set (fst (successive_shuffles env rng es n)). split_of es k xs"
proof
  fix xs assume "xs \<in> set (fst (successive_shuffles env rng es n))"
  with successive_shuffles_mset[OF sh] have m: "mset xs = mset es" by blast
  then have len: "length xs = length es" by (rule mset_eq_length)
  have "mset (take (nat k) xs) + mset (drop (nat k) xs) = mset (take (nat k) xs @ drop (nat k) xs)"
    by (simp only: mset_append)
  then have "mset (take (nat k) xs) + mset (drop (nat k) xs) = mset es" using m by simp
  moreover have "length (take (nat k) xs) = nat k" using k len by simp
  moreover have "length (drop (nat k) xs) = length es - nat k" using len by simp
  ultimately show "split_of es k xs"
    unfolding split_of_def slices_nonneg(1,2)[OF k(1)] using m by simp
qed

lemma fasta_split_effects_eq:
  assumes "0 \<le> k" and "\<not> float_gt_zero (test_split config) \<Longrightarrow> k = 0"
  shows "fasta_split_effects config fn k out i xs =
     (if float_gt_zero (test_split config) then
        (if output_fasta_fastq config then
           [WriteFasta (path_join (path_join (path_join out (str_nat i)) ''test'') fn)
              (take (nat k) xs),
            WriteFasta (path_join (path_join (path_join out (str_nat i)) ''train'') fn)
              (drop (nat k) xs)]
         else []) @
        (if output_db config then
           [WriteFastaDb (path_join (path_join (path_join out (str_nat i)) ''test'') fn)
              (take (nat k) xs),
            WriteFastaDb (path_join (path_join (path_join out (str_nat i)) ''train'') fn)
              (drop (nat k) xs)]
         else [])
      else
        (if output_fasta_fastq config then [WriteFasta (path_join out fn) xs] else []) @
        (if output_db config then [WriteFastaDb (path_join out fn) xs] else []))"
  using assms
  by (auto simp: fasta_split_effects_def output_fasta_file_def output_fasta_db_def
      split_path_def Let_def slice_to_def slice_from_def)

lemma fastq_split_effects_eq:
  assumes "0 \<le> k" and "\<not> float_gt_zero (test_split config) \<Longrightarrow> k = 0"
  shows "fastq_split_effects config fn k out i xs =
     (if float_gt_zero (test_split config) then
        (if output_fasta_fastq config then
           [WriteFastq (path_join (path_join (path_join out (str_nat i)) ''test'') fn)
              (take (nat k) xs),
            WriteFastq (path_join (path_join (path_join out (str_nat i)) ''train'') fn)
              (drop (nat k) xs)]
         else []) @
        (if output_db config then
           [WriteFastqDb (path_join (path_join (path_join out (str_nat i)) ''test'') fn)
              (take (nat k) xs),
            WriteFastqDb (path_join (path_join (path_join out (str_nat i)) ''train'') fn)
              (drop (nat k) xs)]
         else [])
      else
        (if output_fasta_fastq config then [WriteFastq (path_join out fn) xs] else []) @
        (if output_db config then [WriteFastqDb (path_join out fn) xs] else []))"
  using assms
  by (auto simp: fastq_split_effects_def output_fastq_file_def output_fastq_db_def
      split_path_def Let_def slice_to_def slice_from_def)

lemma split_index_zero:
  assumes "\<not> float_gt_zero (Finite m e)" "0 \<le> m"
    and "\<lfloor>of_nat n * float_value (Finite m e)\<rfloor> \<le> k"
    and "k \<le> \<lceil>of_nat n * float_value (Finite m e)\<rceil>"
  shows "k = 0"
proof -
  from assms(1,2) have "m = 0" by (simp add: float_gt_zero_def)
  then have "float_value (Finite m e) = 0" by (simp add: float_value_def)
  with assms(3,4) show ?thesis by simp
qed

text \<open>
  Claim C1, as the code has it. Take a test fraction that is a binary64 number between 0
  and 1, a generator whose shuffles are rearrangements, and an input file with fewer
  than \<open>2 ^ 53\<close> entries. For a FASTA file (its entries cleaned when
  \<^verbatim>\<open>--clean-sequences\<close> is given) and for a FASTQ file alike:
  \<^item> the split index \<open>k\<close> is computed once for the file, as \<^verbatim>\<open>int(n * t)\<close> in binary64
    arithmetic; it lies between the floor and the ceiling of the exact product;
  \<^item> processing the file raises nothing, and its effects are, split after split, those
    of \<open>fasta_split_effects\<close> (\<open>fastq_split_effects\<close>) on the successive in-place
    shuffles of the entry list, one shuffle per split, with the same \<open>k\<close>;
  \<^item> each shuffled list is a split of the entries: a rearrangement of them whose first
    \<open>k\<close> entries and remaining \<open>n - k\<close> entries together hold every entry once;
  \<^item> with a positive test fraction, split \<open>i\<close> writes the first \<open>k\<close> shuffled entries
    under \<^verbatim>\<open>output_path/i/test\<close> and the remaining ones under \<^verbatim>\<open>output_path/i/train\<close>,
    as a file, as a database, or both; with a test fraction of 0 there is no test
    output and all entries are written under \<^verbatim>\<open>output_path\<close>.
\<close>

theorem dataset_splits:
  fixes env :: "('q, 'r) env" and effects :: "'q effect list"
  assumes sh: "shuffles env"
    and t: "test_split config = Finite m e" and b64: "is_binary64 (Finite m e)"
    and m: "0 \<le> m" and one: "float_value (Finite m e) \<le> 1"
    and na: "length (read_fasta env file) < 2 ^ 53"
    and nq: "length (read_fastq env file) < 2 ^ 53"
  defines "N \<equiv> nat (num_splits config)"
    and "fn \<equiv> rstrip (path_name file) ''.gz''"
    and "fa \<equiv> fasta_entries env config file"
    and "fq \<equiv> read_fastq env file"
  shows
    "(\<exists>k files'.
        split_index_of (length fa) (test_split config) = Inr k \<and>
        \<lfloor>of_nat (length fa) * float_value (test_split config)\<rfloor> \<le> k \<and>
        k \<le> \<lceil>of_nat (length fa) * float_value (test_split config)\<rceil> \<and>
        process_fasta_file env config out file (files, effects, rng) =
          (Inr files',
           effects @ concat (map (\<lambda>(i, xs). fasta_split_effects config fn k out i xs)
                              (zip [0 ..< N] (fst (successive_shuffles env rng fa N)))),
           snd (successive_shuffles env rng fa N)) \<and>
        length (fst (successive_shuffles env rng fa N)) = N \<and>
        (\<forall>xs \<in> set (fst (successive_shuffles env rng fa N)). split_of fa k xs) \<and>
        (\<forall>i xs. fasta_split_effects config fn k out i xs =
           (if float_gt_zero (test_split config) then
              (if output_fasta_fastq config then
                 [WriteFasta (path_join (path_join (path_join out (str_nat i)) ''test'') fn)
                    (take (nat k) xs),
                  WriteFasta (path_join (path_join (path_join out (str_nat i)) ''train'') fn)
                    (drop (nat k) xs)]
               else []) @
              (if output_db config then
                 [WriteFastaDb (path_join (path_join (path_join out (str_nat i)) ''test'') fn)
                    (take (nat k) xs),
                  WriteFastaDb (path_join (path_join (path_join out (str_nat i)) ''train'') fn)
                    (drop (nat k) xs)]
               else [])
            else
              (if output_fasta_fastq config then [WriteFasta (path_join out fn) xs] else []) @
              (if output_db config then [WriteFastaDb (path_join out fn) xs] else [])))) \<and>
     (\<exists>k files'.
        split_index_of (length fq) (test_split config) = Inr k \<and>
        \<lfloor>of_nat (length fq) * float_value (test_split config)\<rfloor> \<le> k \<and>
        k \<le> \<lceil>of_nat (length fq) * float_value (test_split config)\<rceil> \<and>
        process_fastq_file env config out file (files, effects, rng) =
          (Inr files',
           effects @ concat (map (\<lambda>(i, xs). fastq_split_effects config fn k out i xs)
                              (zip [0 ..< N] (fst (successive_shuffles env rng fq N)))),
           snd (successive_shuffles env rng fq N)) \<and>
        length (fst (successive_shuffles env rng fq N)) = N \<and>
        (\<forall>xs \<in> set (fst (successive_shuffles env rng fq N)). split_of fq k xs) \<and>
        (\<forall>i xs. fastq_split_effects config fn k out i xs =
           (if float_gt_zero (test_split config) then
              (if output_fasta_fastq config then
                 [WriteFastq (path_join (path_join (path_join out (str_nat i)) ''test'') fn)
                    (take (nat k) xs),
                  WriteFastq (path_join (path_join (path_join out (str_nat i)) ''train'') fn)
                    (drop (nat k) xs)]
               else []) @
              (if output_db config then
                 [WriteFastqDb (path_join (path_join (path_join out (str_nat i)) ''test'') fn)
                    (take (nat k) xs),
                  WriteFastqDb (path_join (path_join (path_join out (str_nat i)) ''train'') fn)
                    (drop (nat k) xs)]
               else [])
            else
              (if output_fasta_fastq config then [WriteFastq (path_join out fn) xs] else []) @
              (if output_db config then [WriteFastqDb (path_join out fn) xs] else []))))"
proof (rule conjI)
  have na': "length fa < 2 ^ 53" unfolding fa_def fasta_entries_length by (rule na)
  from split_index_bounds[OF b64 m one na'] obtain k where
    k: "split_index_of (length fa) (Finite m e) = Inr k"
    and lo: "\<lfloor>of_nat (length fa) * float_value (Finite m e)\<rfloor> \<le> k"
    and hi: "k \<le> \<lceil>of_nat (length fa) * float_value (Finite m e)\<rceil>"
    and k0: "0 \<le> k" and kn: "k \<le> int (length fa)"
    by blast
  have z: "\<not> float_gt_zero (test_split config) \<Longrightarrow> k = 0"
    unfolding t using split_index_zero[OF _ m lo hi] by blast
  from process_fasta_file_eq[of env config "file" k out files effects rng] k
  obtain files' where
    p: "process_fasta_file env config out file (files, effects, rng) =
          (Inr files',
           effects @ concat (map (\<lambda>(i, xs). fasta_split_effects config fn k out i xs)
                              (zip [0 ..< N] (fst (successive_shuffles env rng fa N)))),
           snd (successive_shuffles env rng fa N))"
    unfolding t fa_def N_def fn_def by blast
  show "\<exists>k files'.
        split_index_of (length fa) (test_split config) = Inr k \<and>
        \<lfloor>of_nat (length fa) * float_value (test_split config)\<rfloor> \<le> k \<and>
        k \<le> \<lceil>of_nat (length fa) * float_value (test_split config)\<rceil> \<and>
        process_fasta_file env config out file (files, effects, rng) =
          (Inr files',
           effects @ concat (map (\<lambda>(i, xs). fasta_split_effects config fn k out i xs)
                              (zip [0 ..< N] (fst (successive_shuffles env rng fa N)))),
           snd (successive_shuffles env rng fa N)) \<and>
        length (fst (successive_shuffles env rng fa N)) = N \<and>
        (\<forall>xs \<in> set (fst (successive_shuffles env rng fa N)). split_of fa k xs) \<and>
        (\<forall>i xs. fasta_split_effects config fn k out i xs =
           (if float_gt_zero (test_split config) then
              (if output_fasta_fastq config then
                 [WriteFasta (path_join (path_join (path_join out (str_nat i)) ''test'') fn)
                    (take (nat k) xs),
                  WriteFasta (path_join (path_join (path_join out (str_nat i)) ''train'') fn)
                    (drop (nat k) xs)]
               else []) @
              (if output_db config then
                 [WriteFastaDb (path_join (path_join (path_join out (str_nat i)) ''test'') fn)
                    (take (nat k) xs),
                  WriteFastaDb (path_join (path_join (path_join out (str_nat i)) ''train'') fn)
                    (drop (nat k) xs)]
               else [])
            else
              (if output_fasta_fastq config then [WriteFasta (path_join out fn) xs] else []) @
              (if output_db config then [WriteFastaDb (path_join out fn) xs] else [])))"
    apply (rule exI[of _ k], rule exI[of _ files'])
    apply (intro conjI allI)
    subgoal using k t by simp
    subgoal using lo t by simp
    subgoal using hi t by simp
    subgoal by (rule p)
    subgoal by (rule successive_shuffles_length)
    subgoal by (rule split_of_shuffles[OF sh k0 kn])
    subgoal for i xs by (rule fasta_split_effects_eq[OF k0 z])
    done
next
  have nq': "length fq < 2 ^ 53" unfolding fq_def by (rule nq)
  from split_index_bounds[OF b64 m one nq'] obtain k where
    k: "split_index_of (length fq) (Finite m e) = Inr k"
    and lo: "\<lfloor>of_nat (length fq) * float_value (Finite m e)\<rfloor> \<le> k"
    and hi: "k \<le> \<lceil>of_nat (length fq) * float_value (Finite m e)\<rceil>"
    and k0: "0 \<le> k" and kn: "k \<le> int (length fq)"
    by blast
  have z: "\<not> float_gt_zero (test_split config) \<Longrightarrow> k = 0"
    unfolding t using split_index_zero[OF _ m lo hi] by blast
  from process_fastq_file_eq[of env "file" config k out files effects rng] k
  obtain files' where
    p: "process_fastq_file env config out file (files, effects, rng) =
          (Inr files',
           effects @ concat (map (\<lambda>(i, xs). fastq_split_effects config fn k out i xs)
                              (zip [0 ..< N] (fst (successive_shuffles env rng fq N)))),
           snd (successive_shuffles env rng fq N))"
    unfolding t fq_def N_def fn_def by blast
  show "\<exists>k files'.
        split_index_of (length fq) (test_split config) = Inr k \<and>
        \<lfloor>of_nat (length fq) * float_value (test_split config)\<rfloor> \<le> k \<and>
        k \<le> \<lceil>of_nat (length fq) * float_value (test_split config)\<rceil> \<and>
        process_fastq_file env config out file (files, effects, rng) =
          (Inr files',
           effects @ concat (map (\<lambda>(i, xs). fastq_split_effects config fn k out i xs)
                              (zip [0 ..< N] (fst (successive_shuffles env rng fq N)))),
           snd (successive_shuffles env rng fq N)) \<and>
        length (fst (successive_shuffles env rng fq N)) = N \<and>
        (\<forall>xs \<in> set (fst (successive_shuffles env rng fq N)). split_of fq k xs) \<and>
        (\<forall>i xs. fastq_split_effects config fn k out i xs =
           (if float_gt_zero (test_split config) then
              (if output_fasta_fastq config then
                 [WriteFastq (path_join (path_join (path_join out (str_nat i)) ''test'') fn)
                    (take (nat k) xs),
                  WriteFastq (path_join (path_join (path_join out (str_nat i)) ''train'') fn)
                    (drop (nat k) xs)]
               else []) @
              (if output_db config then
                 [WriteFastqDb (path_join (path_join (path_join out (str_nat i)) ''test'') fn)
                    (take (nat k) xs),
                  WriteFastqDb (path_join (path_join (path_join out (str_nat i)) ''train'') fn)
                    (drop (nat k) xs)]
               else [])
            else
              (if output_fasta_fastq config then [WriteFastq (path_join out fn) xs] else []) @
              (if output_db config then [WriteFastqDb (path_join out fn) xs] else [])))"
    apply (rule exI[of _ k], rule exI[of _ files'])
    apply (intro conjI allI)
    subgoal using k t by simp
    subgoal using lo t by simp
    subgoal using hi t by simp
    subgoal by (rule p)
    subgoal by (rule successive_shuffles_length)
    subgoal by (rule split_of_shuffles[OF sh k0 kn])
    subgoal for i xs by (rule fastq_split_effects_eq[OF k0 z])
    done
qed

text \<open>
  The theorem at the example run with a test fraction of 0.25: the split index is 1,
  both arrangements are splits of the four entries, and the four files are written.
\<close>

theorem dataset_splits_witness:
  "shuffles example_env \<and> is_binary64 (Finite 1 (- 2)) \<and> float_value (Finite 1 (- 2)) \<le> 1 \<and>
   split_index_of (length example_entries) (Finite 1 (- 2)) = Inr 1 \<and>
   list_all (split_of example_entries 1) [rev example_entries, example_entries] \<and>
   process_fasta_file example_env (example_config (Finite 1 (- 2))) [''out'']
     [''data'', ''reads.fasta.gz''] ([], [], 0) =
   (Inr [[''out'', ''0'', ''test'', ''reads.fasta''], [''out'', ''0'', ''train'', ''reads.fasta''],
         [''out'', ''1'', ''test'', ''reads.fasta''], [''out'', ''1'', ''train'', ''reads.fasta'']],
    [WriteFasta [''out'', ''0'', ''test'', ''reads.fasta''] (take 1 (rev example_entries)),
     WriteFasta [''out'', ''0'', ''train'', ''reads.fasta''] (drop 1 (rev example_entries)),
     WriteFasta [''out'', ''1'', ''test'', ''reads.fasta''] (take 1 example_entries),
     WriteFasta [''out'', ''1'', ''train'', ''reads.fasta''] (drop 1 example_entries)],
    2)"
proof -
  let ?config = "example_config (Finite 1 (- 2))"
  let ?file = "[''data'', ''reads.fasta.gz'']"
  have sh: "shuffles example_env" by (simp add: shuffles_def example_env_def)
  have t: "test_split ?config = Finite 1 (- 2)" by (simp add: example_config_def)
  have b64: "is_binary64 (Finite 1 (- 2))" by (simp add: is_binary64_def)
  have m: "(0::int) \<le> 1" by simp
  have one: "float_value (Finite 1 (- 2)) \<le> 1" by (simp add: float_value_def pow2_def)
  have na: "length (read_fasta example_env ?file) < 2 ^ 53"
    by (simp add: example_env_def example_entries_def)
  have nq: "length (read_fastq example_env ?file) < 2 ^ 53"
    by (simp add: example_env_def example_entries_def)
  have fa: "fasta_entries example_env ?config ?file = example_entries"
    by (simp add: fasta_entries_def example_env_def example_config_def)
  have n2: "nat (num_splits ?config) = 2" by (simp add: example_config_def)
  have ev: "split_index_of (length example_entries) (Finite 1 (- 2)) = Inr 1" by code_simp
  have shs: "fst (successive_shuffles example_env 0 example_entries 2)
      = [rev example_entries, example_entries]"
    by code_simp
  from dataset_splits[OF sh t b64 m one na nq, of "[''out'']" "[]" "[]" 0]
  obtain k where k: "split_index_of (length example_entries) (Finite 1 (- 2)) = Inr k"
    and sp: "\<forall>xs \<in> set (fst (successive_shuffles example_env 0 example_entries 2)).
               split_of example_entries k xs"
    unfolding fa t n2 by blast
  from k ev have "k = 1" by simp
  with sp have "list_all (split_of example_entries 1) [rev example_entries, example_entries]"
    unfolding shs by simp
  moreover have "process_fasta_file example_env ?config [''out''] ?file ([], [], 0) =
   (Inr [[''out'', ''0'', ''test'', ''reads.fasta''], [''out'', ''0'', ''train'', ''reads.fasta''],
         [''out'', ''1'', ''test'', ''reads.fasta''], [''out'', ''1'', ''train'', ''reads.fasta'']],
    [WriteFasta [''out'', ''0'', ''test'', ''reads.fasta''] (take 1 (rev example_entries)),
     WriteFasta [''out'', ''0'', ''train'', ''reads.fasta''] (drop 1 (rev example_entries)),
     WriteFasta [''out'', ''1'', ''test'', ''reads.fasta''] (take 1 example_entries),
     WriteFasta [''out'', ''1'', ''train'', ''reads.fasta''] (drop 1 example_entries)],
    2)"
    by code_simp
  ultimately show ?thesis using sh b64 one ev by simp
qed

text \<open>
  The script run with \<^verbatim>\<open>--test-split -0.5\<close> on the four entries: the checks of \<^verbatim>\<open>main\<close>
  pass, the split index is \<open>- 2\<close>, no test file is written, and each of the two splits
  writes only the last two entries of the shuffled list to the training file: two
  entries are lost. Run with \<^verbatim>\<open>--test-split 2.0\<close>, the test files hold four entries, not
  \<open>\<lfloor>4 * 2\<rfloor> = 8\<close>.
\<close>

theorem dataset_splits_counterexample:
  "main example_env (example_config (Finite (- 1) (- 1))) =
     (Returned None,
      [Mkdir [''out''], Mkdir [''out''],
       WriteFasta [''out'', ''reads.fasta'']
         [\<lparr>identifier = ''b'', sequence = ''CCGT'', extra = ''''\<rparr>,
          \<lparr>identifier = ''a'', sequence = ''ACGT'', extra = ''''\<rparr>],
       WriteFasta [''out'', ''reads.fasta'']
         [\<lparr>identifier = ''c'', sequence = ''GGTA'', extra = ''''\<rparr>,
          \<lparr>identifier = ''d'', sequence = ''TTAC'', extra = ''''\<rparr>]]) \<and>
   split_index_of (length example_entries) (Finite (- 1) (- 1)) = Inr (- 2) \<and>
   main example_env (example_config (Finite 1 1)) =
     (Returned None,
      [Mkdir [''out'', ''0'', ''test''], Mkdir [''out'', ''0'', ''train''],
       Mkdir [''out'', ''1'', ''test''], Mkdir [''out'', ''1'', ''train''],
       WriteFasta [''out'', ''0'', ''test'', ''reads.fasta''] (rev example_entries),
       WriteFasta [''out'', ''0'', ''train'', ''reads.fasta''] [],
       WriteFasta [''out'', ''1'', ''test'', ''reads.fasta''] example_entries,
       WriteFasta [''out'', ''1'', ''train'', ''reads.fasta''] []]) \<and>
   split_index_of (length example_entries) (Finite 1 1) = Inr 8"
  by code_simp

text \<open>
  The product is a binary64 product: with ten entries and the float 0.7, which is
  \<open>6305039478318694 / 2 ^ 53\<close>, it rounds to 7, one above the floor of the exact product.
\<close>

lemma split_index_rounds_up:
  "split_index_of 10 (Finite 6305039478318694 (- 53)) = Inr 7 \<and>
   \<lfloor>of_nat 10 * float_value (Finite 6305039478318694 (- 53))\<rfloor> = 6"
  by code_simp

end
